theory Spec2Isabelle
  imports Complex_Main
begin

section \<open>The grid generator: data model\<close>

text \<open>
  The generator script (class \<open>GridGenerator\<close> and the command-line entry point) is
  embedded function by function. Ruby \<open>Float\<close> values are modelled by real numbers, so
  arithmetic is exact; comparisons are the same in both. Log output (\<open>puts\<close>) is left
  out except where it is the result of the command-line entry point. An instance
  variable \<open>@x\<close> of the generator is the record field \<open>at_x\<close>; the keys of the cell,
  listing and feature-property hashes carry the prefixes \<open>c_\<close>, \<open>l_\<close> and \<open>f_\<close>.
\<close>

type_synonym point = "real \<times> real"

text \<open>A polygon is given by its exterior ring, a list of points (x = longitude, y = latitude).\<close>

type_synonym polygon = "point list"

record GridGenerator =
  at_city :: string
  at_outline_file :: string
  at_airbnb_file :: string
  at_cell_size :: real
  at_lat :: real
  at_meters_per_degree_lat :: real
  at_meters_per_degree_lon :: real

record listing =
  l_price :: real
  l_point :: point
  l_lat :: real
  l_lon :: real

record cell =
  c_id :: nat
  c_polygon :: polygon
  c_left :: real
  c_top :: real
  c_right :: real
  c_bottom :: real
  c_row :: nat
  c_col :: nat

record feature =
  f_id :: nat
  f_left :: real
  f_top :: real
  f_right :: real
  f_bottom :: real
  f_price_min :: real
  f_price_max :: real
  f_price_mean :: real
  f_listings_count :: real
  f_coordinates :: "point list"

datatype error = NoMethodError | FloatDomainError

section \<open>Coordinate conversion\<close>

definition initialize :: "string \<Rightarrow> real \<Rightarrow> GridGenerator" where
  "initialize city cell_size =
     \<lparr> at_city = city,
       at_outline_file = ''data/src/'' @ city @ ''/outline.geojson'',
       at_airbnb_file = ''data/src/'' @ city @ ''/listings.csv'',
       at_cell_size = cell_size,
       at_lat = 387 / 10,
       at_meters_per_degree_lat = 111000,
       at_meters_per_degree_lon = 111000 * cos ((387 / 10) * pi / 180) \<rparr>"

definition meters_to_degrees_lat :: "GridGenerator \<Rightarrow> real \<Rightarrow> real" where
  "meters_to_degrees_lat g meters = meters / at_meters_per_degree_lat g"

definition meters_to_degrees_lon :: "GridGenerator \<Rightarrow> real \<Rightarrow> real" where
  "meters_to_degrees_lon g meters = meters / at_meters_per_degree_lon g"

section \<open>Loading the listings\<close>

text \<open>
  A parsed CSV row maps a header to its field; a missing or empty field is \<open>nil\<close>
  (\<open>None\<close>). \<open>nil.to_s\<close> is the empty string and \<open>nil.to_f\<close> is \<open>0.0\<close>.
  \<open>String#to_f\<close> belongs to the Ruby core library and is a parameter \<open>to_f\<close> of the
  loader and of the entry point.
\<close>

type_synonym row = "string \<rightharpoonup> string"

definition to_s :: "string option \<Rightarrow> string" where
  "to_s v = (case v of None \<Rightarrow> [] | Some s \<Rightarrow> s)"

definition field_to_f :: "(string \<Rightarrow> real) \<Rightarrow> string option \<Rightarrow> real" where
  "field_to_f to_f v = (case v of None \<Rightarrow> 0 | Some s \<Rightarrow> to_f s)"

text \<open>\<open>gsub(/[$,]/, '')\<close>: every dollar sign and every comma is removed.\<close>

definition gsub_dollar_comma :: "string \<Rightarrow> string" where
  "gsub_dollar_comma s = filter (\<lambda>c. c \<noteq> CHR ''$'' \<and> c \<noteq> CHR '','') s"

text \<open>The body of the \<open>CSV.foreach\<close> block: \<open>None\<close> is \<open>next\<close> (the row is skipped).\<close>

definition load_row :: "(string \<Rightarrow> real) \<Rightarrow> row \<Rightarrow> listing option" where
  "load_row to_f row =
     (let price_str = gsub_dollar_comma (to_s (row ''price''));
          price = to_f price_str;
          lat = field_to_f to_f (row ''latitude'');
          lon = field_to_f to_f (row ''longitude'')
      in if price \<le> 0 \<or> lat = 0 \<or> lon = 0 then None
         else Some \<lparr> l_price = price, l_point = (lon, lat), l_lat = lat, l_lon = lon \<rparr>)"

fun load_rows :: "(string \<Rightarrow> real) \<Rightarrow> row list \<Rightarrow> listing list \<Rightarrow> listing list" where
  "load_rows to_f [] listings = listings"
| "load_rows to_f (row # rows) listings =
     (case load_row to_f row of
        None \<Rightarrow> load_rows to_f rows listings
      | Some l \<Rightarrow> load_rows to_f rows (listings @ [l]))"

text \<open>
  The file is \<open>None\<close> when reading or parsing it raises: the \<open>rescue\<close> clause prints the
  error and exits with status 1 (\<open>Inl 1\<close>).
\<close>

definition load_airbnb_data :: "(string \<Rightarrow> real) \<Rightarrow> row list option \<Rightarrow> nat + listing list" where
  "load_airbnb_data to_f csv =
     (case csv of None \<Rightarrow> Inl 1 | Some rows \<Rightarrow> Inr (load_rows to_f rows []))"

subsection \<open>A model of \<open>String#to_f\<close> for concrete inputs\<close>

text \<open>
  \<open>String#to_f\<close> reads the longest leading decimal numeral
  \<open>[whitespace][sign]digits[.digits][(e|E)[sign]digits]\<close>, ignores what follows, and
  returns \<open>0.0\<close> when the string does not start with a numeral. Underscores between
  digits are not modelled. This function instantiates the parameter \<open>to_f\<close> on concrete
  inputs only.
\<close>

definition is_digit :: "char \<Rightarrow> bool" where
  "is_digit c = (c \<in> set ''0123456789'')"

definition is_space :: "char \<Rightarrow> bool" where
  "is_space c = (c \<in> set [CHR '' '', CHR 0x09, CHR 0x0A, CHR 0x0B, CHR 0x0C, CHR 0x0D])"

definition digit_val :: "char \<Rightarrow> nat" where
  "digit_val c = of_char c - 48"

definition digits_to_nat :: "string \<Rightarrow> nat" where
  "digits_to_nat ds = fold (\<lambda>c n. 10 * n + digit_val c) ds 0"

definition split_sign :: "string \<Rightarrow> real \<times> string" where
  "split_sign s =
     (case s of
        [] \<Rightarrow> (1, s)
      | c # r \<Rightarrow> if c = CHR ''-'' then (- 1, r) else if c = CHR ''+'' then (1, r) else (1, s))"

definition scale10 :: "real \<Rightarrow> real \<Rightarrow> nat \<Rightarrow> real" where
  "scale10 m esign e = (if esign < 0 then m / 10 ^ e else m * 10 ^ e)"

definition ruby_to_f :: "string \<Rightarrow> real" where
  "ruby_to_f str =
     (let (sign, s) = split_sign (dropWhile is_space str);
          int_digits = takeWhile is_digit s;
          s1 = dropWhile is_digit s;
          frac_digits = (case s1 of [] \<Rightarrow> []
                         | c # r \<Rightarrow> if c = CHR ''.'' then takeWhile is_digit r else []);
          s2 = (if frac_digits = [] then s1 else drop (Suc (length frac_digits)) s1);
          mantissa = real (digits_to_nat int_digits)
                     + real (digits_to_nat frac_digits) / 10 ^ length frac_digits;
          (esign, exp_digits) =
             (case s2 of [] \<Rightarrow> (1, [])
              | c # r \<Rightarrow> if c = CHR ''e'' \<or> c = CHR ''E''
                         then (fst (split_sign r), takeWhile is_digit (snd (split_sign r)))
                         else (1, []))
      in if int_digits = [] \<and> frac_digits = [] then 0
         else sign * scale10 mantissa esign (digits_to_nat exp_digits))"

section \<open>Building the grid\<close>

text \<open>\<open>Array#min\<close> and \<open>Array#max\<close>: \<open>nil\<close> on the empty array.\<close>

fun rb_min :: "real list \<Rightarrow> real option" where
  "rb_min [] = None"
| "rb_min (x # xs) = Some (fold min xs x)"

fun rb_max :: "real list \<Rightarrow> real option" where
  "rb_max [] = None"
| "rb_max (x # xs) = Some (fold max xs x)"

text \<open>The cell hash of one lattice position, with its rectangle ring (five points).\<close>

definition make_cell :: "real \<Rightarrow> real \<Rightarrow> real \<Rightarrow> real \<Rightarrow> nat \<Rightarrow> nat \<Rightarrow> nat \<Rightarrow> cell" where
  "make_cell min_lon min_lat cell_size_lon cell_size_lat row col cell_id =
     (let left = min_lon + real col * cell_size_lon;
          bottom = min_lat + real row * cell_size_lat;
          right = left + cell_size_lon;
          top = bottom + cell_size_lat;
          points = [(left, top), (right, top), (right, bottom), (left, bottom), (left, top)]
      in \<lparr> c_id = cell_id, c_polygon = points, c_left = left, c_top = top,
           c_right = right, c_bottom = bottom, c_row = row, c_col = col \<rparr>)"

text \<open>
  One pass of the inner loop: the state is the pair of \<open>grid_cells\<close> and \<open>cell_id\<close>.
  \<open>intersects\<close> is RGeo's \<open>intersects?\<close>, a predicate of the geometry library and a
  parameter here: \<open>intersects outline cell_polygon\<close>.
\<close>

definition grid_col_step ::
  "(polygon \<Rightarrow> polygon \<Rightarrow> bool) \<Rightarrow> polygon \<Rightarrow> real \<Rightarrow> real \<Rightarrow> real \<Rightarrow> real \<Rightarrow> nat \<Rightarrow> nat
     \<Rightarrow> cell list \<times> nat \<Rightarrow> cell list \<times> nat" where
  "grid_col_step intersects outline_geometry min_lon min_lat cell_size_lon cell_size_lat row col st =
     (case st of (grid_cells, cell_id) \<Rightarrow>
        (let c = make_cell min_lon min_lat cell_size_lon cell_size_lat row col cell_id
         in (if intersects outline_geometry (c_polygon c) then grid_cells @ [c] else grid_cells,
             cell_id + 1)))"

definition grid_row_step ::
  "(polygon \<Rightarrow> polygon \<Rightarrow> bool) \<Rightarrow> polygon \<Rightarrow> real \<Rightarrow> real \<Rightarrow> real \<Rightarrow> real \<Rightarrow> nat \<Rightarrow> nat
     \<Rightarrow> cell list \<times> nat \<Rightarrow> cell list \<times> nat" where
  "grid_row_step intersects outline_geometry min_lon min_lat cell_size_lon cell_size_lat cols row st =
     fold (grid_col_step intersects outline_geometry min_lon min_lat cell_size_lon cell_size_lat row)
       [0..<cols] st"

text \<open>
  \<open>create_grid\<close>. The bounding box of an empty ring is \<open>nil\<close>, and the first use of it
  raises \<open>NoMethodError\<close>. A cell size of zero degrees makes the quotient infinite or
  NaN, and \<open>ceil\<close> raises \<open>FloatDomainError\<close>. A range \<open>(0...n)\<close> with \<open>n \<le> 0\<close> is empty.
  The quotients are those of the source as long as \<open>@meters_per_degree_lat\<close> and
  \<open>@meters_per_degree_lon\<close> are not zero, which \<open>initialize\<close> ensures.
\<close>

definition create_grid ::
  "GridGenerator \<Rightarrow> (polygon \<Rightarrow> polygon \<Rightarrow> bool) \<Rightarrow> polygon \<Rightarrow> error + cell list" where
  "create_grid g intersects outline_geometry =
     (let coords = outline_geometry;
          xs = map fst coords;
          ys = map snd coords
      in case (rb_min xs, rb_min ys, rb_max xs, rb_max ys) of
           (Some min_lon, Some min_lat, Some max_lon, Some max_lat) \<Rightarrow>
             (let cell_size_lat = meters_to_degrees_lat g (at_cell_size g);
                  cell_size_lon = meters_to_degrees_lon g (at_cell_size g)
              in if cell_size_lon = 0 \<or> cell_size_lat = 0 then Inl FloatDomainError
                 else
                   (let cols = \<lceil>(max_lon - min_lon) / cell_size_lon\<rceil>;
                        rows = \<lceil>(max_lat - min_lat) / cell_size_lat\<rceil>
                    in Inr (fst (fold (grid_row_step intersects outline_geometry min_lon min_lat
                                        cell_size_lon cell_size_lat (nat cols))
                                   [0..<nat rows] ([], 1)))))
         | _ \<Rightarrow> Inl NoMethodError)"

section \<open>Aggregation\<close>

definition calculate_price_stats ::
  "real list \<Rightarrow> real option \<times> real option \<times> real option \<times> nat" where
  "calculate_price_stats prices =
     (if prices = [] then (None, None, None, 0)
      else
        (let valid_prices = filter (\<lambda>p. p > 0) prices
         in if valid_prices = [] then (None, None, None, 0)
            else (rb_min valid_prices, rb_max valid_prices,
                  Some (sum_list valid_prices / real (length valid_prices)),
                  length valid_prices)))"

text \<open>
  \<open>Float#round(2)\<close> rounds to two decimals, halves away from zero; \<open>nil.round\<close> raises
  \<open>NoMethodError\<close>.
\<close>

definition round2 :: "real \<Rightarrow> real" where
  "round2 x = (if 0 \<le> x then of_int \<lfloor>x * 100 + 1 / 2\<rfloor> / 100
               else - (of_int \<lfloor>- x * 100 + 1 / 2\<rfloor> / 100))"

definition round_nilable :: "real option \<Rightarrow> error + real" where
  "round_nilable v = (case v of None \<Rightarrow> Inl NoMethodError | Some x \<Rightarrow> Inr (round2 x))"

text \<open>
  The listings found in a cell. \<open>contains\<close> is RGeo's \<open>contains?\<close>, a predicate of the
  geometry library and a parameter here: \<open>contains cell_polygon point\<close>.
\<close>

definition prices_in_cell :: "(polygon \<Rightarrow> point \<Rightarrow> bool) \<Rightarrow> cell \<Rightarrow> listing list \<Rightarrow> real list" where
  "prices_in_cell contains c airbnb_listings =
     map l_price (filter (\<lambda>l. contains (c_polygon c) (l_point l)) airbnb_listings)"

text \<open>The body of the loop over the cells: \<open>Inr None\<close> when the cell has no data.\<close>

definition process_cell ::
  "(polygon \<Rightarrow> point \<Rightarrow> bool) \<Rightarrow> listing list \<Rightarrow> cell \<Rightarrow> error + feature option" where
  "process_cell contains airbnb_listings c =
     (case calculate_price_stats (prices_in_cell contains c airbnb_listings) of
        (price_min, price_max, price_mean, num_points) \<Rightarrow>
          if num_points > 0 then
            (case (round_nilable price_min, round_nilable price_max, round_nilable price_mean) of
               (Inr pmin, Inr pmax, Inr pmean) \<Rightarrow>
                 Inr (Some \<lparr> f_id = c_id c, f_left = c_left c, f_top = c_top c,
                             f_right = c_right c, f_bottom = c_bottom c,
                             f_price_min = pmin, f_price_max = pmax, f_price_mean = pmean,
                             f_listings_count = real num_points,
                             f_coordinates = c_polygon c \<rparr>)
             | _ \<Rightarrow> Inl NoMethodError)
          else Inr None)"

fun process_grid ::
  "(polygon \<Rightarrow> point \<Rightarrow> bool) \<Rightarrow> cell list \<Rightarrow> listing list \<Rightarrow> error + feature list" where
  "process_grid contains [] airbnb_listings = Inr []"
| "process_grid contains (c # grid_cells) airbnb_listings =
     (case process_cell contains airbnb_listings c of
        Inl e \<Rightarrow> Inl e
      | Inr fo \<Rightarrow>
          (case process_grid contains grid_cells airbnb_listings of
             Inl e \<Rightarrow> Inl e
           | Inr features \<Rightarrow> Inr (case fo of None \<Rightarrow> features | Some f \<Rightarrow> f # features)))"

subsection \<open>The geometry predicates on convex polygons\<close>

text \<open>
  \<open>intersects?\<close> and \<open>contains?\<close> are predicates of the geometry library RGeo, with the
  meaning of the Simple Features standard. Two polygons intersect iff they share at
  least one point, boundaries included. A polygon contains a point iff the point lies in
  the interior of the polygon; a point on the boundary ring is not contained. The
  functions below compute the two predicates for convex rings with a non-empty interior
  (every cell polygon is one): two convex polygons are disjoint iff the line through an
  edge of one of them has that polygon on one side and the other polygon strictly on the
  other side, and a point is interior iff it lies strictly on the same side of every
  edge. They instantiate the parameters \<open>intersects\<close> and \<open>contains\<close> on concrete inputs
  and in the statements about \<open>contains?\<close>.
\<close>

text \<open>Twice the signed area of the triangle \<open>p q r\<close>: positive iff \<open>r\<close> is left of the line from \<open>p\<close> to \<open>q\<close>.\<close>

definition cross :: "point \<Rightarrow> point \<Rightarrow> point \<Rightarrow> real" where
  "cross a b c =
     (case (a, b, c) of
        ((x1, y1), (x2, y2), (x3, y3)) \<Rightarrow> (x2 - x1) * (y3 - y1) - (y2 - y1) * (x3 - x1))"

definition ring_edges :: "polygon \<Rightarrow> (point \<times> point) list" where
  "ring_edges ring = zip ring (tl ring)"

definition separates :: "point \<times> point \<Rightarrow> polygon \<Rightarrow> polygon \<Rightarrow> bool" where
  "separates e a b =
     (list_all (\<lambda>p. cross (fst e) (snd e) p \<le> 0) a \<and> list_all (\<lambda>p. 0 < cross (fst e) (snd e) p) b
      \<or> list_all (\<lambda>p. 0 \<le> cross (fst e) (snd e) p) a \<and> list_all (\<lambda>p. cross (fst e) (snd e) p < 0) b)"

definition rgeo_intersects :: "polygon \<Rightarrow> polygon \<Rightarrow> bool" where
  "rgeo_intersects a b =
     (a \<noteq> [] \<and> b \<noteq> []
      \<and> \<not> list_ex (\<lambda>e. separates e a b) (ring_edges a)
      \<and> \<not> list_ex (\<lambda>e. separates e b a) (ring_edges b))"

definition rgeo_contains :: "polygon \<Rightarrow> point \<Rightarrow> bool" where
  "rgeo_contains ring p =
     (ring_edges ring \<noteq> []
      \<and> (list_all (\<lambda>e. cross (fst e) (snd e) p < 0) (ring_edges ring)
         \<or> list_all (\<lambda>e. 0 < cross (fst e) (snd e) p) (ring_edges ring)))"

text \<open>A point given in units of the cell size.\<close>

definition scale_point :: "real \<Rightarrow> real \<Rightarrow> point \<Rightarrow> point" where
  "scale_point sx sy p = (sx * fst p, sy * snd p)"

section \<open>The command-line entry point\<close>

definition print_usage :: "string list" where
  "print_usage =
     [''Usage: ruby generate_grid.rb <city_name> [cell_size_in_meters]'',
      ''Examples:'',
      ''  ruby generate_grid.rb lisboa           # Uses default 200m cells for Lisboa'',
      ''  ruby generate_grid.rb lisboa 100       # Uses 100m cells for Lisboa'',
      ''  ruby generate_grid.rb porto 500        # Uses 500m cells for Porto'',
      [],
      ''Requires: data/src/<city>/outline.geojson and data/src/<city>/listings.csv'']"

text \<open>
  The script either exits with a status after printing some lines, or goes on to
  \<open>GridGenerator.new(city, cell_size).generate\<close>.
\<close>

datatype outcome = Exit nat "string list" | Generate string real

text \<open>
  \<open>file_exist\<close> is \<open>File.exist?\<close>. \<open>to_f\<close> never raises, so the \<open>rescue\<close> clause around
  the cell size is not a branch.
\<close>

definition main :: "(string \<Rightarrow> real) \<Rightarrow> (string \<Rightarrow> bool) \<Rightarrow> string list \<Rightarrow> outcome" where
  "main to_f file_exist argv =
     (if ''-h'' \<in> set argv \<or> ''--help'' \<in> set argv \<or> length argv < 1
      then Exit 0 print_usage
      else
        (let city = argv ! 0;
             cell_size = (if length argv > 1 then to_f (argv ! 1) else 200)
         in if length argv > 1 \<and> cell_size \<le> 0
            then Exit 1 (''Error: Cell size must be a positive number'' # print_usage)
            else
              (let outline_file = ''data/src/'' @ city @ ''/outline.geojson'';
                   airbnb_file = ''data/src/'' @ city @ ''/listings.csv''
               in if \<not> file_exist outline_file
                  then Exit 1 [''Error: '' @ outline_file @ '' not found!'']
                  else if \<not> file_exist airbnb_file
                  then Exit 1 [''Error: '' @ airbnb_file @ '' not found!'']
                  else Generate city cell_size)))"

section \<open>Double-precision arithmetic on concrete inputs\<close>

text \<open>
  The definitions above compute with real numbers. The program computes with IEEE 754
  double-precision numbers: every arithmetic operation returns the double nearest to
  the exact result, ties going to the even significand. \<open>fl\<close> is that rounding, for
  results in the normal range (no overflow, no subnormal numbers, no NaN); a double
  operation \<open>a + b\<close> is \<open>fl (a + b)\<close>. The functions of this section repeat the
  arithmetic of the source with these operations, to compute what the program returns on
  concrete inputs.
\<close>

definition pow2 :: "int \<Rightarrow> real" where
  "pow2 e = (if 0 \<le> e then 2 ^ nat e else 1 / 2 ^ nat (- e))"

text \<open>The nearest integer, ties to even.\<close>

definition rne :: "real \<Rightarrow> int" where
  "rne x = (let f = \<lfloor>x\<rfloor>; d = x - of_int f
            in if d < 1 / 2 then f else if 1 / 2 < d then f + 1
               else if even f then f else f + 1)"

text \<open>
  The binary exponent \<open>e\<close> of a positive number \<open>x\<close>, \<open>2 ^ e \<le> x < 2 ^ (e + 1)\<close>, found by
  halving or doubling; the bound on the number of steps exceeds the exponent range of
  doubles.
\<close>

fun bexp :: "nat \<Rightarrow> real \<Rightarrow> int" where
  "bexp 0 x = 0"
| "bexp (Suc n) x =
     (if 2 \<le> x then bexp n (x / 2) + 1 else if x < 1 then bexp n (x * 2) - 1 else 0)"

definition binary_exponent :: "real \<Rightarrow> int" where
  "binary_exponent x = bexp 2200 \<bar>x\<bar>"

text \<open>Rounding to a significand of 53 bits.\<close>

definition fl :: "real \<Rightarrow> real" where
  "fl x = (if x = 0 then 0
           else (let u = pow2 (binary_exponent x - 52) in of_int (rne (x / u)) * u))"

text \<open>
  \<open>Array#sum\<close> on an array of \<open>Float\<close>s is the Kahan-Babuska compensated summation of
  the Ruby core library: \<open>f\<close> is the running sum, \<open>c\<close> the running compensation, both
  starting at \<open>0.0\<close>, and the result is \<open>f + c\<close>.
\<close>

fun kahan_babuska :: "real list \<Rightarrow> real \<Rightarrow> real \<Rightarrow> real" where
  "kahan_babuska [] f c = fl (f + c)"
| "kahan_babuska (x # xs) f c =
     (let t = fl (f + x);
          c' = (if \<bar>x\<bar> \<le> \<bar>f\<bar> then fl (c + fl (fl (f - t) + x))
                else fl (c + fl (fl (x - t) + f)))
      in kahan_babuska xs t c')"

definition float_sum :: "real list \<Rightarrow> real" where
  "float_sum xs = kahan_babuska xs 0 0"

text \<open>\<open>calculate_price_stats\<close> with the sum and the division in doubles.\<close>

definition calculate_price_stats_float ::
  "real list \<Rightarrow> real option \<times> real option \<times> real option \<times> nat" where
  "calculate_price_stats_float prices =
     (if prices = [] then (None, None, None, 0)
      else
        (let valid_prices = filter (\<lambda>p. p > 0) prices
         in if valid_prices = [] then (None, None, None, 0)
            else (rb_min valid_prices, rb_max valid_prices,
                  Some (fl (float_sum valid_prices / real (length valid_prices))),
                  length valid_prices)))"

text \<open>
  \<open>Float#round(2)\<close> in doubles, as the Ruby core library computes it for a number of
  magnitude below \<open>2 ^ 59\<close>: the number is multiplied by \<open>100.0\<close>, rounded to an integer
  (halves away from zero), corrected by one when the next half-way point divided by
  \<open>100.0\<close> is still not above the number, and divided by \<open>100.0\<close>.
\<close>

definition c_round :: "real \<Rightarrow> real" where
  "c_round x = (if 0 \<le> x then of_int \<lfloor>x + 1 / 2\<rfloor> else - of_int \<lfloor>- x + 1 / 2\<rfloor>)"

definition round_half_up :: "real \<Rightarrow> real \<Rightarrow> real" where
  "round_half_up x s =
     (let xs = fl (x * s);
          f = c_round xs
      in if s = 1 then f
         else if 0 < x then (if fl (fl (f + 1 / 2) / s) \<le> x then f + 1 else f)
         else (if x \<le> fl (fl (f - 1 / 2) / s) then f - 1 else f))"

definition float_round2 :: "real \<Rightarrow> real" where
  "float_round2 x = (if x = 0 then 0 else fl (round_half_up x 100 / 100))"

text \<open>The double nearest to 0.175, a price as \<open>to_f\<close> returns it.\<close>

definition double_0175 :: real where
  "double_0175 = fl (175 / 1000)"

text \<open>
  The generator and the grid in doubles. \<open>math_cos_reference\<close> is the double that
  \<open>Math.cos(38.7 * Math::PI / 180.0)\<close> returns, 0.7804304073383297 (the cosine is computed
  by the C library). The other definitions are \<open>initialize\<close>, \<open>make_cell\<close>, the two loop
  steps and \<open>create_grid\<close> with every operation rounded; the bounds of the outline are
  named \<open>min_lon\<close>, \<open>min_lat\<close>, \<open>max_lon\<close>, \<open>max_lat\<close> here.
\<close>

definition math_cos_reference :: real where
  "math_cos_reference = 1757373045838753 / 2 ^ 51"

definition initialize_float :: "string \<Rightarrow> real \<Rightarrow> GridGenerator" where
  "initialize_float city cell_size =
     \<lparr> at_city = city,
       at_outline_file = ''data/src/'' @ city @ ''/outline.geojson'',
       at_airbnb_file = ''data/src/'' @ city @ ''/listings.csv'',
       at_cell_size = cell_size,
       at_lat = fl (387 / 10),
       at_meters_per_degree_lat = 111000,
       at_meters_per_degree_lon = fl (111000 * math_cos_reference) \<rparr>"

definition make_cell_float :: "real \<Rightarrow> real \<Rightarrow> real \<Rightarrow> real \<Rightarrow> nat \<Rightarrow> nat \<Rightarrow> nat \<Rightarrow> cell" where
  "make_cell_float min_lon min_lat cell_size_lon cell_size_lat row col cell_id =
     (let left = fl (min_lon + fl (real col * cell_size_lon));
          bottom = fl (min_lat + fl (real row * cell_size_lat));
          right = fl (left + cell_size_lon);
          top = fl (bottom + cell_size_lat);
          points = [(left, top), (right, top), (right, bottom), (left, bottom), (left, top)]
      in \<lparr> c_id = cell_id, c_polygon = points, c_left = left, c_top = top,
           c_right = right, c_bottom = bottom, c_row = row, c_col = col \<rparr>)"

definition grid_col_step_float ::
  "(polygon \<Rightarrow> polygon \<Rightarrow> bool) \<Rightarrow> polygon \<Rightarrow> real \<Rightarrow> real \<Rightarrow> real \<Rightarrow> real \<Rightarrow> nat \<Rightarrow> nat
     \<Rightarrow> cell list \<times> nat \<Rightarrow> cell list \<times> nat" where
  "grid_col_step_float intersects outline_geometry min_lon min_lat cell_size_lon cell_size_lat
       row col st =
     (case st of (grid_cells, cell_id) \<Rightarrow>
        (let c = make_cell_float min_lon min_lat cell_size_lon cell_size_lat row col cell_id
         in (if intersects outline_geometry (c_polygon c) then grid_cells @ [c] else grid_cells,
             cell_id + 1)))"

definition grid_row_step_float ::
  "(polygon \<Rightarrow> polygon \<Rightarrow> bool) \<Rightarrow> polygon \<Rightarrow> real \<Rightarrow> real \<Rightarrow> real \<Rightarrow> real \<Rightarrow> nat \<Rightarrow> nat
     \<Rightarrow> cell list \<times> nat \<Rightarrow> cell list \<times> nat" where
  "grid_row_step_float intersects outline_geometry min_lon min_lat cell_size_lon cell_size_lat
       cols row st =
     fold (grid_col_step_float intersects outline_geometry min_lon min_lat cell_size_lon
             cell_size_lat row)
       [0..<cols] st"

definition create_grid_float ::
  "GridGenerator \<Rightarrow> (polygon \<Rightarrow> polygon \<Rightarrow> bool) \<Rightarrow> polygon \<Rightarrow> error + cell list" where
  "create_grid_float g intersects outline_geometry =
     (let coords = outline_geometry;
          xs = map fst coords;
          ys = map snd coords
      in case (rb_min xs, rb_min ys, rb_max xs, rb_max ys) of
           (Some min_lon, Some min_lat, Some max_lon, Some max_lat) \<Rightarrow>
             (let cell_size_lat = fl (at_cell_size g / at_meters_per_degree_lat g);
                  cell_size_lon = fl (at_cell_size g / at_meters_per_degree_lon g)
              in if cell_size_lon = 0 \<or> cell_size_lat = 0 then Inl FloatDomainError
                 else
                   (let cols = \<lceil>fl (fl (max_lon - min_lon) / cell_size_lon)\<rceil>;
                        rows = \<lceil>fl (fl (max_lat - min_lat) / cell_size_lat)\<rceil>
                    in Inr (fst (fold (grid_row_step_float intersects outline_geometry min_lon
                                        min_lat cell_size_lon cell_size_lat (nat cols))
                                   [0..<nat rows] ([], 1)))))
         | _ \<Rightarrow> Inl NoMethodError)"

section \<open>Reference definitions and concrete inputs\<close>

text \<open>
  The values parsed from a row, the rejection condition and the data point of an
  accepted row, written out as the data model states them, for comparison with
  \<open>load_row\<close>.
\<close>

definition parsed_price :: "(string \<Rightarrow> real) \<Rightarrow> row \<Rightarrow> real" where
  "parsed_price to_f row = to_f (gsub_dollar_comma (to_s (row ''price'')))"

definition parsed_latitude :: "(string \<Rightarrow> real) \<Rightarrow> row \<Rightarrow> real" where
  "parsed_latitude to_f row = field_to_f to_f (row ''latitude'')"

definition parsed_longitude :: "(string \<Rightarrow> real) \<Rightarrow> row \<Rightarrow> real" where
  "parsed_longitude to_f row = field_to_f to_f (row ''longitude'')"

definition rejected :: "(string \<Rightarrow> real) \<Rightarrow> row \<Rightarrow> bool" where
  "rejected to_f row =
     (parsed_price to_f row \<le> 0 \<or> parsed_latitude to_f row = 0 \<or> parsed_longitude to_f row = 0)"

definition data_point :: "(string \<Rightarrow> real) \<Rightarrow> row \<Rightarrow> listing" where
  "data_point to_f row =
     \<lparr> l_price = parsed_price to_f row,
       l_point = (parsed_longitude to_f row, parsed_latitude to_f row),
       l_lat = parsed_latitude to_f row,
       l_lon = parsed_longitude to_f row \<rparr>"

text \<open>A row with the three columns the loader reads.\<close>

definition csv_row :: "string \<Rightarrow> string \<Rightarrow> string \<Rightarrow> row" where
  "csv_row p la lo = [''price'' \<mapsto> p, ''latitude'' \<mapsto> la, ''longitude'' \<mapsto> lo]"

text \<open>The price field of fifty euros: the euro sign (three bytes in UTF-8), then \<open>50\<close>.\<close>

definition euro_50 :: string where
  "euro_50 = [CHR 0xE2, CHR 0x82, CHR 0xAC, CHR ''5'', CHR ''0'']"

text \<open>A file system on which no input file exists.\<close>

definition no_file :: "string \<Rightarrow> bool" where
  "no_file path = False"

text \<open>The listings that \<open>process_grid\<close> bins into a cell.\<close>

definition binned :: "(polygon \<Rightarrow> point \<Rightarrow> bool) \<Rightarrow> listing list \<Rightarrow> cell \<Rightarrow> listing list" where
  "binned contains airbnb_listings c =
     filter (\<lambda>l. contains (c_polygon c) (l_point l)) airbnb_listings"

text \<open>
  The feature emitted for a cell whose matched prices are \<open>vp\<close>: the statistics are
  taken over \<open>vp\<close> and rounded to two decimals in the properties.
\<close>

definition feature_of :: "cell \<Rightarrow> real list \<Rightarrow> feature" where
  "feature_of c vp =
     \<lparr> f_id = c_id c, f_left = c_left c, f_top = c_top c, f_right = c_right c,
       f_bottom = c_bottom c, f_price_min = round2 (Min (set vp)),
       f_price_max = round2 (Max (set vp)),
       f_price_mean = round2 (sum_list vp / real (length vp)),
       f_listings_count = real (length vp), f_coordinates = c_polygon c \<rparr>"

text \<open>The features of the cells with at least one positive matched price, in cell order.\<close>

fun emitted :: "(polygon \<Rightarrow> point \<Rightarrow> bool) \<Rightarrow> listing list \<Rightarrow> cell list \<Rightarrow> feature list" where
  "emitted C ls [] = []"
| "emitted C ls (c # cs) =
     (let vp = filter (\<lambda>p. p > 0) (prices_in_cell C c ls)
      in if vp = [] then emitted C ls cs else feature_of c vp # emitted C ls cs)"

text \<open>
  Two neighbouring cells of a lattice with origin (0, 0) and cell size 1 by 1 degree,
  a listing at a position, and three listings inside the first cell.
\<close>

definition unit_cell :: cell where
  "unit_cell = make_cell 0 0 1 1 0 0 1"

definition right_cell :: cell where
  "right_cell = make_cell 0 0 1 1 0 1 2"

definition listing_at :: "real \<Rightarrow> real \<Rightarrow> real \<Rightarrow> listing" where
  "listing_at price lon lat = \<lparr> l_price = price, l_point = (lon, lat), l_lat = lat, l_lon = lon \<rparr>"

definition three_listings :: "listing list" where
  "three_listings = [listing_at 50 (1 / 4) (1 / 4), listing_at 100 (1 / 2) (1 / 2),
                     listing_at 150 (3 / 4) (1 / 4)]"

text \<open>
  The quantities \<open>create_grid\<close> computes from the generator and the outline: the cell
  size in degrees, the bounding box, the numbers of columns and rows, and the cell of
  each lattice position with the id \<open>row * cols + col + 1\<close>. The lattice lists all
  positions in row-major order.
\<close>

definition cell_size_lon :: "GridGenerator \<Rightarrow> real" where
  "cell_size_lon g = meters_to_degrees_lon g (at_cell_size g)"

definition cell_size_lat :: "GridGenerator \<Rightarrow> real" where
  "cell_size_lat g = meters_to_degrees_lat g (at_cell_size g)"

definition min_lon :: "polygon \<Rightarrow> real" where
  "min_lon outline = Min (set (map fst outline))"

definition min_lat :: "polygon \<Rightarrow> real" where
  "min_lat outline = Min (set (map snd outline))"

definition max_lon :: "polygon \<Rightarrow> real" where
  "max_lon outline = Max (set (map fst outline))"

definition max_lat :: "polygon \<Rightarrow> real" where
  "max_lat outline = Max (set (map snd outline))"

definition grid_cols :: "GridGenerator \<Rightarrow> polygon \<Rightarrow> nat" where
  "grid_cols g outline = nat \<lceil>(max_lon outline - min_lon outline) / cell_size_lon g\<rceil>"

definition grid_rows :: "GridGenerator \<Rightarrow> polygon \<Rightarrow> nat" where
  "grid_rows g outline = nat \<lceil>(max_lat outline - min_lat outline) / cell_size_lat g\<rceil>"

definition lattice_cell :: "GridGenerator \<Rightarrow> polygon \<Rightarrow> nat \<Rightarrow> nat \<Rightarrow> cell" where
  "lattice_cell g outline row col =
     make_cell (min_lon outline) (min_lat outline) (cell_size_lon g) (cell_size_lat g)
       row col (row * grid_cols g outline + col + 1)"

definition lattice :: "GridGenerator \<Rightarrow> polygon \<Rightarrow> cell list" where
  "lattice g outline =
     concat (map (\<lambda>row. map (lattice_cell g outline row) [0..<grid_cols g outline])
               [0..<grid_rows g outline])"

text \<open>
  A generator for Lisboa with 200 m cells, and an outline: the right triangle with
  corners (0, 0), (3, 0) and (3, 2) in units of the cell size, whose bounding box is
  covered by 3 columns and 2 rows.
\<close>

definition lisboa_200 :: GridGenerator where
  "lisboa_200 = initialize ''lisboa'' 200"

definition triangle_outline :: polygon where
  "triangle_outline =
     map (scale_point (cell_size_lon lisboa_200) (cell_size_lat lisboa_200))
       [(0, 0), (3, 0), (3, 2), (0, 0)]"

text \<open>
  Listings placed in units of the cell size of \<open>lisboa_200\<close>: one inside the cell of
  row 0, column 0, one inside the cell of row 1, column 1, one in the coordinate range
  of the position of row 1, column 0, and one on the edge shared by the cells of columns
  0 and 1 of row 0. Then the cells kept for the triangle, and the features emitted for
  them.
\<close>

definition scaled_listing :: "real \<Rightarrow> real \<Rightarrow> real \<Rightarrow> listing" where
  "scaled_listing price x y =
     \<lparr> l_price = price,
       l_point = scale_point (cell_size_lon lisboa_200) (cell_size_lat lisboa_200) (x, y),
       l_lat = cell_size_lat lisboa_200 * y,
       l_lon = cell_size_lon lisboa_200 * x \<rparr>"

definition triangle_listings :: "listing list" where
  "triangle_listings =
     [scaled_listing 50 (1 / 2) (1 / 2), scaled_listing 100 (3 / 2) (3 / 2),
      scaled_listing 150 (1 / 2) (3 / 2), scaled_listing 80 1 (1 / 2)]"

definition triangle_cells :: "cell list" where
  "triangle_cells =
     [lattice_cell lisboa_200 triangle_outline 0 0, lattice_cell lisboa_200 triangle_outline 0 1,
      lattice_cell lisboa_200 triangle_outline 0 2, lattice_cell lisboa_200 triangle_outline 1 1,
      lattice_cell lisboa_200 triangle_outline 1 2]"

definition triangle_features :: "feature list" where
  "triangle_features =
     [feature_of (lattice_cell lisboa_200 triangle_outline 0 0) [50],
      feature_of (lattice_cell lisboa_200 triangle_outline 1 1) [100]]"

text \<open>Two listings inside the first cell whose prices have more than two decimals.\<close>

definition decimal_listings :: "listing list" where
  "decimal_listings = [listing_at (123456 / 10000) (1 / 4) (1 / 4),
                       listing_at (100009 / 1000) (1 / 2) (1 / 2)]"

text \<open>
  A run in doubles: 200 m cells over the rectangular outline with longitudes from -0.51
  to 0.33 and latitudes from 51.3 to 51.7, the cells of columns 167 and 168 in row 0
  (ids 168 and 169), and one listing.
\<close>

definition box_outline :: polygon where
  "box_outline =
     [(fl (- 51 / 100), fl (513 / 10)), (fl (33 / 100), fl (513 / 10)),
      (fl (33 / 100), fl (517 / 10)), (fl (- 51 / 100), fl (517 / 10)),
      (fl (- 51 / 100), fl (513 / 10))]"

definition box_cells :: "cell list" where
  "box_cells =
     (case create_grid_float (initialize_float ''london'' 200) rgeo_intersects box_outline of
        Inl e \<Rightarrow> [] | Inr cells \<Rightarrow> cells)"

definition overlap_cell_168 :: cell where
  "overlap_cell_168 =
     make_cell_float (fl (- 51 / 100)) (fl (513 / 10))
       (fl (200 / fl (111000 * math_cos_reference))) (fl (200 / 111000)) 0 167 168"

definition overlap_cell_169 :: cell where
  "overlap_cell_169 =
     make_cell_float (fl (- 51 / 100)) (fl (513 / 10))
       (fl (200 / fl (111000 * math_cos_reference))) (fl (200 / 111000)) 0 168 169"

definition overlap_listing :: listing where
  "overlap_listing = listing_at 100 (- (8800656122533659 / 2 ^ 56)) (fl (513009 / 10000))"

definition box_features :: "feature list" where
  "box_features =
     (case process_grid rgeo_contains box_cells [overlap_listing] of
        Inl e \<Rightarrow> [] | Inr features \<Rightarrow> features)"

section \<open>Properties of the coordinate conversion\<close>

lemma cos_reference_latitude_pos: "0 < cos ((387 / 10) * pi / 180)"
proof -
  have "0 < (387 / 10) * pi / 180" by simp
  moreover have "(387 / 10) * pi / 180 < pi / 2" by simp
  ultimately show ?thesis by (intro cos_gt_zero_pi) simp_all
qed

text \<open>
  Claim C9. The converter holds one constant reference latitude, 38.7 degrees, whatever
  the city and cell size the generator is created with (the boundary is not an input of
  the constructor at all), and converts \<open>m\<close> meters to \<open>m / 111000\<close> degrees of latitude
  and to \<open>m / (111000 * cos (reference latitude in radians))\<close> degrees of longitude.
\<close>

theorem converter_fixed_reference_latitude:
  "at_lat (initialize city cell_size) = 387 / 10
   \<and> meters_to_degrees_lat (initialize city cell_size) m = m / 111000
   \<and> meters_to_degrees_lon (initialize city cell_size) m
       = m / (111000 * cos (at_lat (initialize city cell_size) * pi / 180))"
  by (simp add: initialize_def meters_to_degrees_lat_def meters_to_degrees_lon_def)

section \<open>Properties of the listings loader\<close>

lemmas to_f_eval = ruby_to_f_def split_sign_def is_space_def is_digit_def digits_to_nat_def
  digit_val_def scale10_def gsub_dollar_comma_def

lemma to_f_price_1234: "ruby_to_f (gsub_dollar_comma ''$1,234.50'') = 2469 / 2"
  by (simp add: to_f_eval)

lemma to_f_price_zero: "ruby_to_f (gsub_dollar_comma ''$0.00'') = 0"
  by (simp add: to_f_eval)

lemma to_f_price_80: "ruby_to_f (gsub_dollar_comma ''$80.00'') = 80"
  by (simp add: to_f_eval)

lemma to_f_price_euro: "ruby_to_f (gsub_dollar_comma euro_50) = 0"
  by (simp add: to_f_eval euro_50_def)

lemma to_f_latitude: "ruby_to_f ''38.7'' = 387 / 10"
  by (simp add: to_f_eval)

lemma to_f_longitude: "ruby_to_f ''-9.14'' = - (457 / 50)"
  by (simp add: to_f_eval)

lemma to_f_zero: "ruby_to_f ''0'' = 0"
  by (simp add: to_f_eval)

lemma to_f_minus_5: "ruby_to_f ''-5'' = - 5"
  by (simp add: to_f_eval)

lemma csv_row_fields:
  "csv_row p la lo ''price'' = Some p"
  "csv_row p la lo ''latitude'' = Some la"
  "csv_row p la lo ''longitude'' = Some lo"
  by (simp_all add: csv_row_def)

lemma load_row_eq:
  "load_row to_f row = (if rejected to_f row then None else Some (data_point to_f row))"
  by (simp add: load_row_def rejected_def data_point_def parsed_price_def
      parsed_latitude_def parsed_longitude_def Let_def)

lemma load_rows_eq:
  "load_rows to_f rows acc = acc @ map (data_point to_f) (filter (\<lambda>r. \<not> rejected to_f r) rows)"
  by (induction rows arbitrary: acc) (simp_all add: load_row_eq)

lemma data_point_valid:
  "\<not> rejected to_f r \<Longrightarrow>
     0 < l_price (data_point to_f r) \<and> l_lat (data_point to_f r) \<noteq> 0
     \<and> l_lon (data_point to_f r) \<noteq> 0"
  by (simp add: rejected_def data_point_def)

lemma load_rows_valid:
  "l \<in> set (load_rows to_f rows []) \<Longrightarrow> 0 < l_price l \<and> l_lat l \<noteq> 0 \<and> l_lon l \<noteq> 0"
  using data_point_valid by (auto simp: load_rows_eq)

text \<open>
  Claim C7. On a readable file the loader never fails: it returns the data points of
  exactly the rows that are not rejected, in input order, where a row is rejected iff its
  parsed price is at most 0 or its parsed latitude or longitude is 0. Every data point
  returned has a positive price and non-zero coordinates.
\<close>

theorem loader_skips_exactly_invalid_rows:
  "load_airbnb_data to_f (Some rows)
     = Inr (map (data_point to_f) (filter (\<lambda>r. \<not> rejected to_f r) rows))
   \<and> (\<forall>l \<in> set (map (data_point to_f) (filter (\<lambda>r. \<not> rejected to_f r) rows)).
         0 < l_price l \<and> l_lat l \<noteq> 0 \<and> l_lon l \<noteq> 0)"
  using load_rows_valid [of _ to_f rows]
  by (simp add: load_airbnb_data_def load_rows_eq)

theorem loader_skips_exactly_invalid_rows_witness:
  "load_airbnb_data ruby_to_f
     (Some [csv_row ''$1,234.50'' ''38.7'' ''-9.14'', csv_row ''$0.00'' ''38.7'' ''-9.14'',
            csv_row ''$80.00'' ''0'' ''-9.14'', csv_row ''$80.00'' ''38.7'' ''-9.14''])
     = Inr [\<lparr> l_price = 2469 / 2, l_point = (- (457 / 50), 387 / 10), l_lat = 387 / 10,
               l_lon = - (457 / 50) \<rparr>,
            \<lparr> l_price = 80, l_point = (- (457 / 50), 387 / 10), l_lat = 387 / 10,
               l_lon = - (457 / 50) \<rparr>]
   \<and> list_all (\<lambda>l. 0 < l_price l \<and> l_lat l \<noteq> 0 \<and> l_lon l \<noteq> 0)
         [\<lparr> l_price = 2469 / 2, l_point = (- (457 / 50), 387 / 10), l_lat = 387 / 10,
             l_lon = - (457 / 50) \<rparr>,
          \<lparr> l_price = 80, l_point = (- (457 / 50), 387 / 10), l_lat = 387 / 10,
             l_lon = - (457 / 50) \<rparr>]"
  using loader_skips_exactly_invalid_rows [of ruby_to_f
     "[csv_row ''$1,234.50'' ''38.7'' ''-9.14'', csv_row ''$0.00'' ''38.7'' ''-9.14'',
       csv_row ''$80.00'' ''0'' ''-9.14'', csv_row ''$80.00'' ''38.7'' ''-9.14'']"]
  by (simp add: rejected_def data_point_def parsed_price_def parsed_latitude_def
      parsed_longitude_def csv_row_fields to_s_def field_to_f_def to_f_price_1234
      to_f_price_zero to_f_price_80 to_f_latitude to_f_longitude to_f_zero)

text \<open>
  Claim C8, as stated, fails: a price field of fifty euros is a positive number decorated
  with a currency symbol, yet the euro sign is not removed, the field parses to 0 and the
  row is skipped.
\<close>

theorem loader_strips_currency_counterexample:
  "load_airbnb_data ruby_to_f (Some [csv_row euro_50 ''38.7'' ''-9.14'']) = Inr []"
  by (simp add: load_airbnb_data_def load_row_def csv_row_fields to_s_def to_f_price_euro)

text \<open>
  Claim C8, amended. Before numeric parsing the loader removes every dollar sign and
  every comma from the price field, and nothing else. So for a row whose price field,
  once dollar signs and commas are taken out, is a numeral \<open>num\<close> that parses to a
  positive number, and whose coordinates parse to non-zero values, the parsed price is
  that number and the row is accepted.
\<close>

theorem loader_strips_dollar_and_comma:
  "row ''price'' = Some field \<Longrightarrow> gsub_dollar_comma field = num \<Longrightarrow> 0 < to_f num
   \<Longrightarrow> field_to_f to_f (row ''latitude'') = la \<Longrightarrow> la \<noteq> 0
   \<Longrightarrow> field_to_f to_f (row ''longitude'') = lo \<Longrightarrow> lo \<noteq> 0
   \<Longrightarrow> set num = set field - {CHR ''$'', CHR '',''}
       \<and> load_airbnb_data to_f (Some [row])
          = Inr [\<lparr> l_price = to_f num, l_point = (lo, la), l_lat = la, l_lon = lo \<rparr>]"
  by (auto simp: load_airbnb_data_def load_row_def to_s_def gsub_dollar_comma_def)

theorem loader_strips_dollar_and_comma_witness:
  "csv_row ''$1,234.50'' ''38.7'' ''-9.14'' ''price'' = Some ''$1,234.50''
   \<and> gsub_dollar_comma ''$1,234.50'' = ''1234.50'' \<and> 0 < ruby_to_f ''1234.50''
   \<and> field_to_f ruby_to_f (csv_row ''$1,234.50'' ''38.7'' ''-9.14'' ''latitude'') = 387 / 10
   \<and> field_to_f ruby_to_f (csv_row ''$1,234.50'' ''38.7'' ''-9.14'' ''longitude'') = - (457 / 50)
   \<and> load_airbnb_data ruby_to_f (Some [csv_row ''$1,234.50'' ''38.7'' ''-9.14''])
        = Inr [\<lparr> l_price = 2469 / 2, l_point = (- (457 / 50), 387 / 10), l_lat = 387 / 10,
                  l_lon = - (457 / 50) \<rparr>]"
proof -
  have g: "gsub_dollar_comma ''$1,234.50'' = ''1234.50''"
    by (simp add: gsub_dollar_comma_def)
  have v: "ruby_to_f ''1234.50'' = 2469 / 2"
    using to_f_price_1234 by (simp add: g)
  have la: "field_to_f ruby_to_f (csv_row ''$1,234.50'' ''38.7'' ''-9.14'' ''latitude'') = 387 / 10"
    by (simp add: csv_row_fields field_to_f_def to_f_latitude)
  have lo: "field_to_f ruby_to_f (csv_row ''$1,234.50'' ''38.7'' ''-9.14'' ''longitude'')
              = - (457 / 50)"
    by (simp add: csv_row_fields field_to_f_def to_f_longitude)
  have pos: "0 < ruby_to_f ''1234.50''"
    by (simp add: v)
  have ne1: "(387 / 10 :: real) \<noteq> 0" and ne2: "- (457 / 50 :: real) \<noteq> 0"
    by simp_all
  have pr: "csv_row ''$1,234.50'' ''38.7'' ''-9.14'' ''price'' = Some ''$1,234.50''"
    by (rule csv_row_fields)
  have res: "load_airbnb_data ruby_to_f (Some [csv_row ''$1,234.50'' ''38.7'' ''-9.14''])
        = Inr [\<lparr> l_price = 2469 / 2, l_point = (- (457 / 50), 387 / 10), l_lat = 387 / 10,
                  l_lon = - (457 / 50) \<rparr>]"
    using loader_strips_dollar_and_comma [OF pr g pos la ne1 lo ne2] by (simp add: v)
  show ?thesis
    using pr g pos la lo res by (intro conjI)
qed

section \<open>Properties of the command-line entry point\<close>

text \<open>
  Claim C2, as stated, fails: with no argument at all the script prints the usage text
  and exits with status 0.
\<close>

theorem main_without_arguments_counterexample:
  "main ruby_to_f no_file [] = Exit 0 print_usage"
  by (simp add: main_def)

text \<open>
  Claim C2, amended. Invoking the script with no argument is handled like the help flag:
  the usage text is printed and the exit status is 0. A cell size argument that is not
  positive is an error: a diagnostic and the usage text are printed and the exit status
  is 1.
\<close>

theorem main_without_arguments_exits_zero:
  "main to_f file_exist [] = Exit 0 print_usage
   \<and> (''-h'' \<notin> set argv \<and> ''--help'' \<notin> set argv \<and> 1 < length argv \<and> to_f (argv ! 1) \<le> 0
        \<longrightarrow> main to_f file_exist argv
              = Exit 1 (''Error: Cell size must be a positive number'' # print_usage))"
  by (simp add: main_def)

theorem main_without_arguments_exits_zero_witness:
  "main ruby_to_f no_file [] = Exit 0 print_usage
   \<and> ''-h'' \<notin> set [''lisboa'', ''-5''] \<and> ''--help'' \<notin> set [''lisboa'', ''-5'']
   \<and> 1 < length [''lisboa'', ''-5''] \<and> ruby_to_f ([''lisboa'', ''-5''] ! 1) \<le> 0
   \<and> main ruby_to_f no_file [''lisboa'', ''-5'']
        = Exit 1 (''Error: Cell size must be a positive number'' # print_usage)"
  using main_without_arguments_exits_zero [of ruby_to_f no_file "[''lisboa'', ''-5'']"]
  by (simp add: to_f_minus_5)

section \<open>Properties of the aggregation\<close>

lemma rb_min_Min:
  assumes "xs \<noteq> []"
  shows "rb_min xs = Some (Min (set xs))"
proof (cases xs)
  case Nil
  with assms show ?thesis by simp
next
  case (Cons a list)
  show ?thesis unfolding Cons using Min.set_eq_fold [of a list] by simp
qed

lemma rb_max_Max:
  assumes "xs \<noteq> []"
  shows "rb_max xs = Some (Max (set xs))"
proof (cases xs)
  case Nil
  with assms show ?thesis by simp
next
  case (Cons a list)
  show ?thesis unfolding Cons using Max.set_eq_fold [of a list] by simp
qed

lemma calculate_price_stats_eq:
  "calculate_price_stats prices =
     (if filter (\<lambda>p. p > 0) prices = [] then (None, None, None, 0)
      else (Some (Min (set (filter (\<lambda>p. p > 0) prices))),
            Some (Max (set (filter (\<lambda>p. p > 0) prices))),
            Some (sum_list (filter (\<lambda>p. p > 0) prices) / real (length (filter (\<lambda>p. p > 0) prices))),
            length (filter (\<lambda>p. p > 0) prices)))"
  by (cases "prices = []") (simp_all add: calculate_price_stats_def Let_def rb_min_Min rb_max_Max)

lemma filter_all_pos: "\<forall>p \<in> set prices. (0::real) < p \<Longrightarrow> filter (\<lambda>p. p > 0) prices = prices"
  by (induction prices) simp_all


lemma prices_in_cell_binned: "prices_in_cell C c ls = map l_price (binned C ls c)"
  by (simp add: prices_in_cell_def binned_def)

lemma prices_in_cell_pos:
  "\<forall>l \<in> set ls. 0 < l_price l \<Longrightarrow> \<forall>p \<in> set (prices_in_cell C c ls). 0 < p"
  by (auto simp: prices_in_cell_def)

lemma process_cell_eq:
  "process_cell C ls c =
     (let vp = filter (\<lambda>p. p > 0) (prices_in_cell C c ls)
      in Inr (if vp = [] then None else Some (feature_of c vp)))"
  by (simp add: process_cell_def calculate_price_stats_eq round_nilable_def Let_def feature_of_def)

lemma process_cell_pos:
  "\<forall>l \<in> set ls. 0 < l_price l \<Longrightarrow>
   process_cell C ls c =
     Inr (if binned C ls c = [] then None else Some (feature_of c (prices_in_cell C c ls)))"
  using prices_in_cell_pos [of ls C c]
  by (simp add: process_cell_eq filter_all_pos Let_def prices_in_cell_binned)

lemma process_grid_eq: "process_grid C cells ls = Inr (emitted C ls cells)"
  by (induction cells) (simp_all add: process_cell_eq Let_def)

lemma emitted_pos:
  "\<forall>l \<in> set ls. 0 < l_price l \<Longrightarrow>
   emitted C ls cells
     = map (\<lambda>c. feature_of c (prices_in_cell C c ls)) (filter (\<lambda>c. binned C ls c \<noteq> []) cells)"
proof (induction cells)
  case Nil
  show ?case by simp
next
  case (Cons c cs)
  have "filter (\<lambda>p. p > 0) (prices_in_cell C c ls) = prices_in_cell C c ls"
    using prices_in_cell_pos [OF Cons.prems] by (simp add: filter_all_pos)
  with Cons show ?case by (simp add: Let_def prices_in_cell_binned)
qed

lemma emitted_mem:
  "f \<in> set (emitted C ls cells) \<Longrightarrow>
   \<exists>c \<in> set cells. filter (\<lambda>p. p > 0) (prices_in_cell C c ls) \<noteq> []
      \<and> f = feature_of c (filter (\<lambda>p. p > 0) (prices_in_cell C c ls))"
  by (induction cells) (auto simp: Let_def split: if_splits)

lemma sum_list_lower: "\<forall>x \<in> set xs. (m::real) \<le> x \<Longrightarrow> real (length xs) * m \<le> sum_list xs"
  by (induction xs) (auto simp: algebra_simps)

lemma sum_list_upper: "\<forall>x \<in> set xs. x \<le> (m::real) \<Longrightarrow> sum_list xs \<le> real (length xs) * m"
  by (induction xs) (auto simp: algebra_simps)

lemma mean_bounds:
  fixes xs :: "real list"
  assumes "xs \<noteq> []"
  shows "Min (set xs) \<le> sum_list xs / real (length xs)"
    and "sum_list xs / real (length xs) \<le> Max (set xs)"
proof -
  have n: "0 < real (length xs)" using assms by simp
  have "real (length xs) * Min (set xs) \<le> sum_list xs"
    by (rule sum_list_lower) simp
  then show "Min (set xs) \<le> sum_list xs / real (length xs)"
    using n by (simp add: pos_le_divide_eq mult.commute)
  have "sum_list xs \<le> real (length xs) * Max (set xs)"
    by (rule sum_list_upper) simp
  then show "sum_list xs / real (length xs) \<le> Max (set xs)"
    using n by (simp add: pos_divide_le_eq mult.commute)
qed

lemma round2_mono: "x \<le> y \<Longrightarrow> round2 x \<le> round2 y"
proof -
  assume xy: "x \<le> y"
  have f: "\<And>a b::real. a \<le> b \<Longrightarrow> \<lfloor>a * 100 + 1 / 2\<rfloor> \<le> \<lfloor>b * 100 + 1 / 2\<rfloor>"
    by (rule floor_mono) simp
  show ?thesis
  proof (cases "0 \<le> x")
    case True
    then have "0 \<le> y" using xy by simp
    with True f [OF xy] show ?thesis
      by (simp add: round2_def divide_right_mono)
  next
    case False
    show ?thesis
    proof (cases "0 \<le> y")
      case True
      have rx: "round2 x = - (of_int \<lfloor>- x * 100 + 1 / 2\<rfloor> / 100)"
        using False by (simp add: round2_def)
      have ry: "round2 y = of_int \<lfloor>y * 100 + 1 / 2\<rfloor> / 100"
        using True by (simp add: round2_def)
      have "0 \<le> \<lfloor>- x * 100 + 1 / 2\<rfloor>" using False by simp
      then have "round2 x \<le> 0" unfolding rx by simp
      moreover have "0 \<le> \<lfloor>y * 100 + 1 / 2\<rfloor>" using True by simp
      then have "0 \<le> round2 y" unfolding ry by simp
      ultimately show ?thesis by linarith
    next
      case False2: False
      have "- y \<le> - x" using xy by simp
      from f [OF this] show ?thesis using False False2
        by (simp add: round2_def divide_right_mono)
    qed
  qed
qed

lemma round2_nonneg: "0 \<le> x \<Longrightarrow> 0 \<le> round2 x"
  by (simp add: round2_def)

lemma round2_small: "round2 (1 / 1000) = 0"
  by (simp add: round2_def)

lemma rgeo_contains_rectangle:
  assumes "l < r" and "b < t"
  shows "rgeo_contains [(l, t), (r, t), (r, b), (l, b), (l, t)] p \<longleftrightarrow>
           l < fst p \<and> fst p < r \<and> b < snd p \<and> snd p < t"
proof -
  have c1: "cross (l, t) (r, t) p = (r - l) * (snd p - t)"
    and c2: "cross (r, t) (r, b) p = (t - b) * (fst p - r)"
    and c3: "cross (r, b) (l, b) p = (r - l) * (b - snd p)"
    and c4: "cross (l, b) (l, t) p = (t - b) * (l - fst p)"
    by (simp_all add: cross_def split_beta algebra_simps)
  have w: "0 < r - l" and h: "0 < t - b"
    using assms by simp_all
  have s1: "(r - l) * (snd p - t) < 0 \<longleftrightarrow> snd p < t"
    and s2: "(t - b) * (fst p - r) < 0 \<longleftrightarrow> fst p < r"
    and s3: "(r - l) * (b - snd p) < 0 \<longleftrightarrow> b < snd p"
    and s4: "(t - b) * (l - fst p) < 0 \<longleftrightarrow> l < fst p"
    and p1: "0 < (r - l) * (snd p - t) \<longleftrightarrow> t < snd p"
    and p3: "0 < (r - l) * (b - snd p) \<longleftrightarrow> snd p < b"
    using w h by (simp_all add: mult_less_0_iff zero_less_mult_iff)
  have neg: "list_all (\<lambda>e. cross (fst e) (snd e) p < 0)
               (ring_edges [(l, t), (r, t), (r, b), (l, b), (l, t)])
             \<longleftrightarrow> l < fst p \<and> fst p < r \<and> b < snd p \<and> snd p < t"
    unfolding ring_edges_def by (simp add: c1 c2 c3 c4 s1 s2 s3 s4) blast
  have pos: "\<not> list_all (\<lambda>e. 0 < cross (fst e) (snd e) p)
               (ring_edges [(l, t), (r, t), (r, b), (l, b), (l, t)])"
    unfolding ring_edges_def using assms(2) by (simp add: c1 c2 c3 c4 p1 p3)
  have ne: "ring_edges [(l, t), (r, t), (r, b), (l, b), (l, t)] \<noteq> []"
    by (simp add: ring_edges_def)
  show ?thesis
    unfolding rgeo_contains_def using neg pos ne by blast
qed

lemma rgeo_contains_make_cell:
  assumes "0 < sx" and "0 < sy"
  shows "rgeo_contains (c_polygon (make_cell x0 y0 sx sy row col n)) p \<longleftrightarrow>
           c_left (make_cell x0 y0 sx sy row col n) < fst p
         \<and> fst p < c_right (make_cell x0 y0 sx sy row col n)
         \<and> c_bottom (make_cell x0 y0 sx sy row col n) < snd p
         \<and> snd p < c_top (make_cell x0 y0 sx sy row col n)"
proof -
  have "x0 + real col * sx < x0 + real col * sx + sx"
    and "y0 + real row * sy < y0 + real row * sy + sy"
    using assms by simp_all
  from rgeo_contains_rectangle [OF this] show ?thesis
    by (simp add: make_cell_def Let_def)
qed

lemma unit_cell_id: "c_id unit_cell = 1"
  by (simp add: unit_cell_def make_cell_def)

lemma right_cell_id: "c_id right_cell = 2"
  by (simp add: right_cell_def make_cell_def)

lemma unit_cell_contains:
  "rgeo_contains (c_polygon unit_cell) p \<longleftrightarrow> 0 < fst p \<and> fst p < 1 \<and> 0 < snd p \<and> snd p < 1"
  unfolding unit_cell_def
  by (subst rgeo_contains_make_cell) (simp_all add: make_cell_def)

lemma right_cell_contains:
  "rgeo_contains (c_polygon right_cell) p
     \<longleftrightarrow> 1 < fst p \<and> fst p < 2 \<and> 0 < snd p \<and> snd p < 1"
  unfolding right_cell_def
  by (subst rgeo_contains_make_cell) (simp_all add: make_cell_def)

lemma binned_three_unit: "binned rgeo_contains three_listings unit_cell = three_listings"
  by (simp add: binned_def unit_cell_contains three_listings_def listing_at_def)

lemma binned_three_right: "binned rgeo_contains three_listings right_cell = []"
  by (simp add: binned_def right_cell_contains three_listings_def listing_at_def)

lemma three_listings_pos: "\<forall>l \<in> set three_listings. 0 < l_price l"
  by (simp add: three_listings_def listing_at_def)


text \<open>
  Claim C3. When every listing has a positive price (as every loaded data point has),
  the count computed for a cell is the number of listings binned into it, the features
  emitted are those of exactly the cells whose count is positive, in cell order, and
  each carries the id of its cell and that count as \<open>listings_count\<close>.
\<close>

theorem cell_count_and_emission:
  assumes "\<forall>l \<in> set ls. 0 < l_price l"
  shows "snd (snd (snd (calculate_price_stats (prices_in_cell C c ls)))) = length (binned C ls c)
    \<and> (\<exists>fs. process_grid C cells ls = Inr fs
          \<and> map (\<lambda>f. (f_id f, f_listings_count f)) fs
            = map (\<lambda>c. (c_id c, real (length (binned C ls c))))
                (filter (\<lambda>c. 0 < length (binned C ls c)) cells))"
proof -
  have pos: "\<forall>p \<in> set (prices_in_cell C c ls). 0 < p"
    using assms by (rule prices_in_cell_pos)
  have fp: "filter (\<lambda>p. p > 0) (prices_in_cell C c ls) = prices_in_cell C c ls"
    using pos by (rule filter_all_pos)
  have "snd (snd (snd (calculate_price_stats (prices_in_cell C c ls)))) = length (binned C ls c)"
    unfolding calculate_price_stats_eq fp by (simp add: prices_in_cell_binned)
  moreover have "map (\<lambda>f. (f_id f, f_listings_count f)) (emitted C ls cells)
            = map (\<lambda>c. (c_id c, real (length (binned C ls c))))
                (filter (\<lambda>c. 0 < length (binned C ls c)) cells)"
    by (simp add: emitted_pos [OF assms] feature_of_def prices_in_cell_binned comp_def)
  ultimately show ?thesis by (simp add: process_grid_eq)
qed

theorem cell_count_and_emission_witness:
  "list_all (\<lambda>l. 0 < l_price l) three_listings
   \<and> snd (snd (snd (calculate_price_stats (prices_in_cell rgeo_contains unit_cell three_listings)))) = 3
   \<and> (\<exists>fs. process_grid rgeo_contains [unit_cell, right_cell] three_listings = Inr fs
          \<and> map (\<lambda>f. (f_id f, f_listings_count f)) fs = [(1, 3)])"
proof -
  have n: "length three_listings = 3" and ne: "three_listings \<noteq> []"
    by (simp_all add: three_listings_def)
  show ?thesis
    using cell_count_and_emission [OF three_listings_pos, of rgeo_contains unit_cell
        "[unit_cell, right_cell]"] three_listings_pos
    by (simp add: list_all_iff binned_three_unit binned_three_right n ne unit_cell_id del: process_grid.simps)
qed






lemma prices_decimal_unit:
  "prices_in_cell rgeo_contains unit_cell decimal_listings = [123456 / 10000, 100009 / 1000]"
  by (simp add: prices_in_cell_def unit_cell_contains decimal_listings_def listing_at_def)

lemma feature_of_decimal:
  "feature_of unit_cell [123456 / 10000, 100009 / 1000]
     = \<lparr> f_id = 1, f_left = 0, f_top = 1, f_right = 1, f_bottom = 0,
         f_price_min = 1235 / 100, f_price_max = 10001 / 100, f_price_mean = 5618 / 100,
         f_listings_count = 2,
         f_coordinates = [(0, 1), (1, 1), (1, 0), (0, 0), (0, 1)] \<rparr>"
  by (simp add: feature_of_def round2_def unit_cell_def make_cell_def)



lemma bexp_unfold:
  "bexp n x = (if n = 0 then 0 else if 2 \<le> x then bexp (n - 1) (x / 2) + 1
               else if x < 1 then bexp (n - 1) (x * 2) - 1 else 0)"
  by (cases n) simp_all

lemma fl_unfold:
  "fl x = (if x = 0 then 0
           else of_int (rne (x / pow2 (binary_exponent x - 52))) * pow2 (binary_exponent x - 52))"
  by (simp add: fl_def Let_def)

lemma rne_unfold:
  "rne x = (if x - of_int \<lfloor>x\<rfloor> < 1 / 2 then \<lfloor>x\<rfloor>
            else if 1 / 2 < x - of_int \<lfloor>x\<rfloor> then \<lfloor>x\<rfloor> + 1
            else if even \<lfloor>x\<rfloor> then \<lfloor>x\<rfloor> else \<lfloor>x\<rfloor> + 1)"
  by (simp add: rne_def Let_def)

lemma kahan_babuska_step:
  "kahan_babuska (x # xs) f c =
     kahan_babuska xs (fl (f + x))
       (if \<bar>x\<bar> \<le> \<bar>f\<bar> then fl (c + fl (fl (f - fl (f + x)) + x))
        else fl (c + fl (fl (x - fl (f + x)) + f)))"
  by (simp add: Let_def)

lemma round_half_up_unfold:
  "round_half_up x s =
     (if s = 1 then c_round (fl (x * s))
      else if 0 < x
        then (if fl (fl (c_round (fl (x * s)) + 1 / 2) / s) \<le> x then c_round (fl (x * s)) + 1
              else c_round (fl (x * s)))
        else (if x \<le> fl (fl (c_round (fl (x * s)) - 1 / 2) / s) then c_round (fl (x * s)) - 1
              else c_round (fl (x * s))))"
  by (simp add: round_half_up_def Let_def)

lemmas fl_eval = fl_unfold binary_exponent_def bexp_unfold pow2_def rne_unfold

lemmas float_stats_eval = calculate_price_stats_float_def float_sum_def kahan_babuska_step
  float_round2_def round_half_up_unfold c_round_def

lemma double_0175_value: "double_0175 = 3152519739159347 / 2 ^ 54"
  by (simp add: double_0175_def fl_eval)

lemma float_stats_three_0175:
  "calculate_price_stats_float [double_0175, double_0175, double_0175]
     = (Some double_0175, Some double_0175, Some (6305039478318693 / 2 ^ 55), 3)"
  unfolding double_0175_value
  by (simp add: float_stats_eval fl_eval del: kahan_babuska.simps(2))

lemma mean_below_min: "6305039478318693 / 2 ^ 55 < double_0175"
  unfolding double_0175_value by simp

lemma float_round2_0175: "float_round2 double_0175 = fl (18 / 100)"
  unfolding double_0175_value
  by (simp add: float_stats_eval fl_eval)

lemma float_round2_mean: "float_round2 (6305039478318693 / 2 ^ 55) = fl (17 / 100)"
  by (simp add: float_stats_eval fl_eval)

lemma hundredths_ordered: "fl (17 / 100) < fl (18 / 100)"
  by (simp add: fl_eval)

text \<open>
  Claim C10, as stated, fails. After rounding the statistics need not be positive: a
  cell whose only listing has the price 0.001 is emitted with \<open>price_min\<close>, \<open>price_mean\<close>
  and \<open>price_max\<close> all 0. And the mean need not lie between the minimum and the maximum:
  in doubles, three listings priced 0.175 have a mean below that price, and the rounded
  values are \<open>price_min\<close> 0.18 and \<open>price_mean\<close> 0.17.
\<close>

theorem emitted_statistics_positive_counterexample:
  "process_grid rgeo_contains [unit_cell] [listing_at (1 / 1000) (1 / 2) (1 / 2)]
     = Inr [\<lparr> f_id = 1, f_left = 0, f_top = 1, f_right = 1, f_bottom = 0,
               f_price_min = 0, f_price_max = 0, f_price_mean = 0, f_listings_count = 1,
               f_coordinates = [(0, 1), (1, 1), (1, 0), (0, 0), (0, 1)] \<rparr>]
   \<and> calculate_price_stats_float [double_0175, double_0175, double_0175]
       = (Some double_0175, Some double_0175, Some (6305039478318693 / 2 ^ 55), 3)
   \<and> 6305039478318693 / 2 ^ 55 < double_0175
   \<and> float_round2 double_0175 = fl (18 / 100)
   \<and> float_round2 (6305039478318693 / 2 ^ 55) = fl (17 / 100)
   \<and> fl (17 / 100) < fl (18 / 100)"
proof -
  have zero: "process_grid rgeo_contains [unit_cell] [listing_at (1 / 1000) (1 / 2) (1 / 2)]
     = Inr [\<lparr> f_id = 1, f_left = 0, f_top = 1, f_right = 1, f_bottom = 0,
               f_price_min = 0, f_price_max = 0, f_price_mean = 0, f_listings_count = 1,
               f_coordinates = [(0, 1), (1, 1), (1, 0), (0, 0), (0, 1)] \<rparr>]"
    by (simp add: process_grid_eq Let_def prices_in_cell_def unit_cell_contains listing_at_def
        feature_of_def round2_small unit_cell_id)
       (simp add: unit_cell_def make_cell_def)
  show ?thesis
    using zero float_stats_three_0175 mean_below_min float_round2_0175 float_round2_mean
      hundredths_ordered
    by (intro conjI)
qed

text \<open>
  Claim C10, amended. For every emitted feature the minimum and the maximum of its cell
  are positive and ordered before rounding, \<open>0 < min \<le> max\<close>, and non-negative and
  ordered after the rounding to two decimals, \<open>0 \<le> price_min \<le> price_max\<close>. No bound
  is stated for the mean.
\<close>

theorem emitted_statistics_ordered:
  assumes "process_grid C cells ls = Inr fs" and "f \<in> set fs"
  shows "\<exists>c \<in> set cells. \<exists>mn mx me n.
           calculate_price_stats (prices_in_cell C c ls) = (Some mn, Some mx, Some me, n)
           \<and> 0 < mn \<and> mn \<le> mx
           \<and> f_price_min f = round2 mn \<and> f_price_max f = round2 mx
           \<and> 0 \<le> f_price_min f \<and> f_price_min f \<le> f_price_max f"
proof -
  from assms have "f \<in> set (emitted C ls cells)" by (simp add: process_grid_eq)
  then obtain c where c: "c \<in> set cells"
    and ne: "filter (\<lambda>p. p > 0) (prices_in_cell C c ls) \<noteq> []"
    and f: "f = feature_of c (filter (\<lambda>p. p > 0) (prices_in_cell C c ls))"
    using emitted_mem by blast
  define vp where "vp = filter (\<lambda>p. p > 0) (prices_in_cell C c ls)"
  have vne: "vp \<noteq> []" using ne by (simp add: vp_def)
  have "Min (set vp) \<in> set vp" using vne by (intro Min_in) simp_all
  then have mpos: "0 < Min (set vp)" by (simp add: vp_def)
  have le: "Min (set vp) \<le> Max (set vp)"
    using vne by simp
  have stats: "calculate_price_stats (prices_in_cell C c ls)
      = (Some (Min (set vp)), Some (Max (set vp)), Some (sum_list vp / real (length vp)), length vp)"
    using vne by (simp add: calculate_price_stats_eq vp_def)
  have fm: "f_price_min f = round2 (Min (set vp))"
    and fx: "f_price_max f = round2 (Max (set vp))"
    by (simp_all add: f feature_of_def vp_def)
  have r0: "0 \<le> f_price_min f" unfolding fm using mpos by (intro round2_nonneg) simp
  have r1: "f_price_min f \<le> f_price_max f" unfolding fm fx using le by (rule round2_mono)
  show ?thesis
    using c stats mpos le fm fx r0 r1 by blast
qed

theorem emitted_statistics_ordered_witness:
  "process_grid rgeo_contains [unit_cell] decimal_listings
     = Inr [feature_of unit_cell [123456 / 10000, 100009 / 1000]]
   \<and> feature_of unit_cell [123456 / 10000, 100009 / 1000]
       \<in> set [feature_of unit_cell [123456 / 10000, 100009 / 1000]]
   \<and> calculate_price_stats (prices_in_cell rgeo_contains unit_cell decimal_listings)
       = (Some (123456 / 10000), Some (100009 / 1000), Some (561773 / 10000), 2)
   \<and> f_price_min (feature_of unit_cell [123456 / 10000, 100009 / 1000]) = 1235 / 100
   \<and> f_price_max (feature_of unit_cell [123456 / 10000, 100009 / 1000]) = 10001 / 100
   \<and> (\<exists>c \<in> set [unit_cell]. \<exists>mn mx me n.
           calculate_price_stats (prices_in_cell rgeo_contains c decimal_listings)
             = (Some mn, Some mx, Some me, n)
           \<and> 0 < mn \<and> mn \<le> mx
           \<and> f_price_min (feature_of unit_cell [123456 / 10000, 100009 / 1000]) = round2 mn
           \<and> f_price_max (feature_of unit_cell [123456 / 10000, 100009 / 1000]) = round2 mx
           \<and> 0 \<le> f_price_min (feature_of unit_cell [123456 / 10000, 100009 / 1000])
           \<and> f_price_min (feature_of unit_cell [123456 / 10000, 100009 / 1000])
               \<le> f_price_max (feature_of unit_cell [123456 / 10000, 100009 / 1000]))"
proof -
  have pg: "process_grid rgeo_contains [unit_cell] decimal_listings
              = Inr [feature_of unit_cell [123456 / 10000, 100009 / 1000]]"
    by (simp add: process_grid_eq prices_decimal_unit Let_def)
  have mem: "feature_of unit_cell [123456 / 10000, 100009 / 1000]
               \<in> set [feature_of unit_cell [123456 / 10000, 100009 / 1000]]"
    by simp
  have stats: "calculate_price_stats (prices_in_cell rgeo_contains unit_cell decimal_listings)
       = (Some (123456 / 10000), Some (100009 / 1000), Some (561773 / 10000), 2)"
    by (simp add: prices_decimal_unit calculate_price_stats_def)
  have v: "f_price_min (feature_of unit_cell [123456 / 10000, 100009 / 1000]) = 1235 / 100"
    "f_price_max (feature_of unit_cell [123456 / 10000, 100009 / 1000]) = 10001 / 100"
    unfolding feature_of_decimal by simp_all
  show ?thesis
    using emitted_statistics_ordered [OF pg mem] pg mem stats v by (intro conjI)
qed

section \<open>Properties of the grid\<close>

lemma grid_col_loop:
  "fold (grid_col_step isect outl x0 y0 sx sy row) [0..<n] (cells, k)
     = (cells @ filter (\<lambda>c. isect outl (c_polygon c))
                  (map (\<lambda>col. make_cell x0 y0 sx sy row col (k + col)) [0..<n]),
        k + n)"
  by (induction n) (simp_all add: grid_col_step_def Let_def)

lemma grid_row_loop:
  "fold (grid_row_step isect outl x0 y0 sx sy cols) [0..<m] (cells, k)
     = (cells @ filter (\<lambda>c. isect outl (c_polygon c))
                  (concat (map (\<lambda>row. map (\<lambda>col. make_cell x0 y0 sx sy row col (k + row * cols + col))
                                        [0..<cols]) [0..<m])),
        k + m * cols)"
  by (induction m) (simp_all add: grid_row_step_def grid_col_loop add.assoc)

lemma create_grid_eq:
  assumes "outline \<noteq> []" and "cell_size_lon g \<noteq> 0" and "cell_size_lat g \<noteq> 0"
  shows "create_grid g isect outline
           = Inr (filter (\<lambda>c. isect outline (c_polygon c)) (lattice g outline))"
proof -
  have ne: "map fst outline \<noteq> []" "map snd outline \<noteq> []"
    using assms(1) by simp_all
  have cellid: "\<And>row col. Suc (row * grid_cols g outline + col) = row * grid_cols g outline + col + 1"
    by simp
  show ?thesis
    using assms(2,3)
    by (simp add: create_grid_def Let_def rb_min_Min [OF ne(1)] rb_min_Min [OF ne(2)]
        rb_max_Max [OF ne(1)] rb_max_Max [OF ne(2)] grid_row_loop lattice_def lattice_cell_def [abs_def]
        grid_cols_def grid_rows_def cell_size_lon_def cell_size_lat_def min_lon_def min_lat_def
        max_lon_def max_lat_def del: set_map)
qed

lemma cell_size_initialize:
  "cell_size_lon (initialize city cs) = cs / (111000 * cos ((387 / 10) * pi / 180))"
  "cell_size_lat (initialize city cs) = cs / 111000"
  by (simp_all add: cell_size_lon_def cell_size_lat_def initialize_def
      meters_to_degrees_lon_def meters_to_degrees_lat_def)

lemma cell_size_initialize_pos:
  "0 < cs \<Longrightarrow> 0 < cell_size_lon (initialize city cs)"
  "0 < cs \<Longrightarrow> 0 < cell_size_lat (initialize city cs)"
  using cos_reference_latitude_pos by (simp_all add: cell_size_initialize)

lemma create_grid_error:
  "create_grid (initialize city cs) isect [] = Inl NoMethodError"
  "outline \<noteq> [] \<Longrightarrow> create_grid (initialize city 0) isect outline = Inl FloatDomainError"
  apply (simp add: create_grid_def)
  apply (cases outline)
  apply (simp_all add: create_grid_def initialize_def meters_to_degrees_lon_def meters_to_degrees_lat_def)
  done

lemma cross_scale:
  "cross (scale_point sx sy p) (scale_point sx sy q) (scale_point sx sy r)
     = sx * sy * cross p q r"
  by (simp add: cross_def scale_point_def split_beta algebra_simps)

lemma scaled_sign:
  fixes k c :: real
  assumes "0 < k"
  shows "k * c < 0 \<longleftrightarrow> c < 0" and "0 < k * c \<longleftrightarrow> 0 < c"
    and "k * c \<le> 0 \<longleftrightarrow> c \<le> 0" and "0 \<le> k * c \<longleftrightarrow> 0 \<le> c"
  using assms by (simp_all add: mult_less_0_iff zero_less_mult_iff mult_le_0_iff zero_le_mult_iff)

lemma separates_scale:
  assumes "0 < sx" and "0 < sy"
  shows "separates (scale_point sx sy p, scale_point sx sy q)
           (map (scale_point sx sy) a) (map (scale_point sx sy) b)
         = separates (p, q) a b"
proof -
  have k: "0 < sx * sy" using assms by simp
  show ?thesis
    by (simp add: separates_def list_all_iff cross_scale scaled_sign [OF k])
qed

lemma ring_edges_map:
  "ring_edges (map f ring) = map (\<lambda>e. (f (fst e), f (snd e))) (ring_edges ring)"
  by (simp add: ring_edges_def zip_map_map map_tl [symmetric] case_prod_unfold del: map_tl)

lemma rgeo_intersects_scale:
  assumes "0 < sx" and "0 < sy"
  shows "rgeo_intersects (map (scale_point sx sy) a) (map (scale_point sx sy) b)
         = rgeo_intersects a b"
  by (simp add: rgeo_intersects_def ring_edges_map list_ex_iff separates_scale [OF assms])

lemma make_cell_polygon_scaled:
  "c_polygon (make_cell 0 0 sx sy row col n)
     = map (scale_point sx sy)
         [(real col, real row + 1), (real col + 1, real row + 1), (real col + 1, real row),
          (real col, real row), (real col, real row + 1)]"
  by (simp add: make_cell_def Let_def scale_point_def algebra_simps)

lemma lisboa_200_sizes:
  "0 < cell_size_lon lisboa_200" "0 < cell_size_lat lisboa_200"
  unfolding lisboa_200_def by (simp_all add: cell_size_initialize_pos)

lemma triangle_outline_bounds:
  "min_lon triangle_outline = 0" "min_lat triangle_outline = 0"
  "max_lon triangle_outline = 3 * cell_size_lon lisboa_200"
  "max_lat triangle_outline = 2 * cell_size_lat lisboa_200"
  using lisboa_200_sizes
  by (simp_all add: min_lon_def min_lat_def max_lon_def max_lat_def triangle_outline_def
      scale_point_def)

lemma triangle_grid_size:
  "grid_cols lisboa_200 triangle_outline = 3" "grid_rows lisboa_200 triangle_outline = 2"
  using lisboa_200_sizes
  by (simp_all add: grid_cols_def grid_rows_def triangle_outline_bounds)

lemma triangle_lattice:
  "lattice lisboa_200 triangle_outline
     = [lattice_cell lisboa_200 triangle_outline 0 0, lattice_cell lisboa_200 triangle_outline 0 1,
        lattice_cell lisboa_200 triangle_outline 0 2, lattice_cell lisboa_200 triangle_outline 1 0,
        lattice_cell lisboa_200 triangle_outline 1 1, lattice_cell lisboa_200 triangle_outline 1 2]"
  by (simp add: lattice_def triangle_grid_size upt_rec numeral_2_eq_2)

lemma triangle_intersects_cell:
  "rgeo_intersects triangle_outline (c_polygon (lattice_cell lisboa_200 triangle_outline row col))
     = rgeo_intersects [(0, 0), (3, 0), (3, 2), (0, 0)]
         [(real col, real row + 1), (real col + 1, real row + 1), (real col + 1, real row),
          (real col, real row), (real col, real row + 1)]"
  unfolding lattice_cell_def triangle_outline_bounds make_cell_polygon_scaled
  unfolding triangle_outline_def
  by (rule rgeo_intersects_scale [OF lisboa_200_sizes])

lemmas intersects_eval = rgeo_intersects_def ring_edges_def separates_def cross_def

lemma triangle_kept:
  "rgeo_intersects triangle_outline (c_polygon (lattice_cell lisboa_200 triangle_outline 0 0))"
  "rgeo_intersects triangle_outline (c_polygon (lattice_cell lisboa_200 triangle_outline 0 1))"
  "rgeo_intersects triangle_outline (c_polygon (lattice_cell lisboa_200 triangle_outline 0 2))"
  "\<not> rgeo_intersects triangle_outline (c_polygon (lattice_cell lisboa_200 triangle_outline 1 0))"
  "rgeo_intersects triangle_outline (c_polygon (lattice_cell lisboa_200 triangle_outline 1 1))"
  "rgeo_intersects triangle_outline (c_polygon (lattice_cell lisboa_200 triangle_outline 1 2))"
  unfolding triangle_intersects_cell by (simp_all add: intersects_eval)

lemma triangle_grid:
  "create_grid lisboa_200 rgeo_intersects triangle_outline
     = Inr [lattice_cell lisboa_200 triangle_outline 0 0, lattice_cell lisboa_200 triangle_outline 0 1,
            lattice_cell lisboa_200 triangle_outline 0 2, lattice_cell lisboa_200 triangle_outline 1 1,
            lattice_cell lisboa_200 triangle_outline 1 2]"
proof -
  have ne: "triangle_outline \<noteq> []" by (simp add: triangle_outline_def)
  have nz: "cell_size_lon lisboa_200 \<noteq> 0" "cell_size_lat lisboa_200 \<noteq> 0"
    using lisboa_200_sizes by simp_all
  show ?thesis
    unfolding create_grid_eq [OF ne nz] triangle_lattice
    by (simp only: filter.simps triangle_kept if_True if_False)
qed

lemma lattice_mem:
  "c \<in> set (lattice g outline) \<longleftrightarrow>
     (\<exists>row < grid_rows g outline. \<exists>col < grid_cols g outline. c = lattice_cell g outline row col)"
  by (force simp: lattice_def image_iff)

lemma lattice_cell_fields:
  "c_id (lattice_cell g outline row col) = row * grid_cols g outline + col + 1"
  "c_row (lattice_cell g outline row col) = row"
  "c_col (lattice_cell g outline row col) = col"
  "c_left (lattice_cell g outline row col) = min_lon outline + real col * cell_size_lon g"
  "c_bottom (lattice_cell g outline row col) = min_lat outline + real row * cell_size_lat g"
  "c_right (lattice_cell g outline row col)
     = min_lon outline + real col * cell_size_lon g + cell_size_lon g"
  "c_top (lattice_cell g outline row col)
     = min_lat outline + real row * cell_size_lat g + cell_size_lat g"
  by (simp_all add: lattice_cell_def make_cell_def Let_def)

lemma row_ids: "map (\<lambda>col. k + col + 1) [0..<n] = [k + 1..<k + n + 1]"
  by (induction n) simp_all

lemma lattice_ids_upto:
  "concat (map (\<lambda>row. map (\<lambda>col. row * cols + col + 1) [0..<cols]) [0..<n])
     = [1..<n * cols + 1]"
proof (induction n)
  case 0
  show ?case by simp
next
  case (Suc n)
  let ?F = "\<lambda>row. map (\<lambda>col. row * cols + col + 1) [0..<cols]"
  have "concat (map ?F [0..<Suc n]) = concat (map ?F [0..<n]) @ ?F n"
    by simp
  also have "\<dots> = [1..<n * cols + 1] @ [n * cols + 1..<n * cols + cols + 1]"
    by (simp only: Suc) (simp only: row_ids)
  also have "\<dots> = [1..<(n * cols + 1) + cols]"
    using upt_add_eq_append [of 1 "n * cols + 1" cols] by (simp add: add.commute add.left_commute)
  also have "(n * cols + 1) + cols = Suc n * cols + 1"
    by simp
  finally show ?case .
qed

lemma lattice_ids:
  "map c_id (lattice g outline) = [1..<grid_rows g outline * grid_cols g outline + 1]"
proof -
  have "map c_id (lattice g outline)
      = concat (map (\<lambda>row. map (\<lambda>col. row * grid_cols g outline + col + 1)
                              [0..<grid_cols g outline]) [0..<grid_rows g outline])"
    by (simp add: lattice_def map_concat comp_def lattice_cell_fields)
  then show ?thesis by (simp only: lattice_ids_upto)
qed

lemma lattice_distinct: "distinct (lattice g outline)"
proof -
  have "distinct (map c_id (lattice g outline))"
    unfolding lattice_ids by simp
  then show ?thesis by (rule distinct_map [THEN iffD1, THEN conjunct1])
qed

lemma lattice_id_inj:
  assumes "c \<in> set (lattice g outline)" and "c' \<in> set (lattice g outline)"
    and "c_id c = c_id c'"
  shows "c = c'"
proof -
  have "distinct (map c_id (lattice g outline))"
    unfolding lattice_ids by simp
  then have "inj_on c_id (set (lattice g outline))"
    by (simp add: distinct_map)
  with assms show ?thesis by (auto dest: inj_onD)
qed

lemma create_grid_Inr:
  assumes "create_grid (initialize city cs) isect outline = Inr cells"
  shows "outline \<noteq> []" and "cs \<noteq> 0"
    and "cells = filter (\<lambda>c. isect outline (c_polygon c)) (lattice (initialize city cs) outline)"
proof -
  show ne: "outline \<noteq> []"
    using assms create_grid_error(1) [of city cs isect] by auto
  show nz: "cs \<noteq> 0"
    using assms create_grid_error(2) [OF ne, of city isect] by auto
  have "cell_size_lon (initialize city cs) \<noteq> 0" "cell_size_lat (initialize city cs) \<noteq> 0"
    using nz cos_reference_latitude_pos by (simp_all add: cell_size_initialize)
  from create_grid_eq [OF ne this] assms
  show "cells = filter (\<lambda>c. isect outline (c_polygon c)) (lattice (initialize city cs) outline)"
    by simp
qed

lemma emitted_from_cell:
  "f \<in> set (emitted C ls cells) \<Longrightarrow>
     \<exists>c \<in> set cells. f_id f = c_id c \<and> f_left f = c_left c \<and> f_bottom f = c_bottom c
        \<and> f_right f = c_right c \<and> f_top f = c_top c \<and> f_coordinates f = c_polygon c"
  by (drule emitted_mem) (auto simp: feature_of_def)

lemma rgeo_contains_scale:
  assumes "0 < sx" and "0 < sy"
  shows "rgeo_contains (map (scale_point sx sy) ring) (scale_point sx sy p) = rgeo_contains ring p"
proof -
  have k: "0 < sx * sy" using assms by simp
  show ?thesis
    by (simp add: rgeo_contains_def ring_edges_map list_all_iff cross_scale scaled_sign [OF k])
qed

lemma triangle_cell_contains:
  "rgeo_contains (c_polygon (lattice_cell lisboa_200 triangle_outline row col))
     (scale_point (cell_size_lon lisboa_200) (cell_size_lat lisboa_200) p)
   \<longleftrightarrow> real col < fst p \<and> fst p < real col + 1 \<and> real row < snd p \<and> snd p < real row + 1"
proof -
  have "rgeo_contains (c_polygon (lattice_cell lisboa_200 triangle_outline row col))
          (scale_point (cell_size_lon lisboa_200) (cell_size_lat lisboa_200) p)
        = rgeo_contains [(real col, real row + 1), (real col + 1, real row + 1),
            (real col + 1, real row), (real col, real row), (real col, real row + 1)] p"
    unfolding lattice_cell_def triangle_outline_bounds make_cell_polygon_scaled
    by (rule rgeo_contains_scale [OF lisboa_200_sizes])
  also have "\<dots> \<longleftrightarrow> real col < fst p \<and> fst p < real col + 1 \<and> real row < snd p \<and> snd p < real row + 1"
    by (subst rgeo_contains_rectangle) simp_all
  finally show ?thesis .
qed

lemma triangle_create_grid:
  "create_grid lisboa_200 rgeo_intersects triangle_outline = Inr triangle_cells"
  unfolding triangle_cells_def by (rule triangle_grid)

lemma triangle_emitted:
  "emitted rgeo_contains triangle_listings triangle_cells = triangle_features"
  by (simp add: triangle_cells_def triangle_listings_def triangle_features_def Let_def
      prices_in_cell_def scaled_listing_def triangle_cell_contains)

lemma triangle_process_grid:
  "process_grid rgeo_contains triangle_cells triangle_listings = Inr triangle_features"
  by (simp only: process_grid_eq triangle_emitted)

lemma triangle_ids:
  "map c_id triangle_cells = [1, 2, 3, 5, 6]" "map f_id triangle_features = [1, 5]"
  by (simp_all add: triangle_cells_def triangle_features_def feature_of_def lattice_cell_fields
      triangle_grid_size)

text \<open>
  Claim C4. The ids of the lattice positions, in row-major order, are 1, 2, ..., rows *
  cols; the kept cells are the lattice cells that intersect the outline, each with the
  id of its position, so a position that is not kept uses up its id. Every kept cell has
  \<open>id = row * cols + col + 1\<close> with \<open>row < rows\<close>, \<open>col < cols\<close>, and its left and bottom
  bounds are the bounding-box origin plus \<open>col\<close> and \<open>row\<close> cell sizes; every emitted
  feature has the id and bounds of such a position.
\<close>

theorem cell_ids_row_major:
  assumes "create_grid (initialize city cs) isect outline = Inr cells"
    and "process_grid C cells ls = Inr fs"
  shows "map c_id (lattice (initialize city cs) outline)
           = [1..<grid_rows (initialize city cs) outline * grid_cols (initialize city cs) outline + 1]
    \<and> cells = filter (\<lambda>c. isect outline (c_polygon c)) (lattice (initialize city cs) outline)
    \<and> (\<forall>c \<in> set cells.
          c_row c < grid_rows (initialize city cs) outline
          \<and> c_col c < grid_cols (initialize city cs) outline
          \<and> c_id c = c_row c * grid_cols (initialize city cs) outline + c_col c + 1
          \<and> c_left c = min_lon outline + real (c_col c) * cell_size_lon (initialize city cs)
          \<and> c_bottom c = min_lat outline + real (c_row c) * cell_size_lat (initialize city cs))
    \<and> (\<forall>f \<in> set fs.
          \<exists>row < grid_rows (initialize city cs) outline.
          \<exists>col < grid_cols (initialize city cs) outline.
            f_id f = row * grid_cols (initialize city cs) outline + col + 1
            \<and> f_left f = min_lon outline + real col * cell_size_lon (initialize city cs)
            \<and> f_bottom f = min_lat outline + real row * cell_size_lat (initialize city cs))"
proof -
  let ?g = "initialize city cs"
  note cells = create_grid_Inr(3) [OF assms(1)]
  have sub: "set cells \<subseteq> set (lattice ?g outline)"
    unfolding cells by auto
  have c: "\<forall>c \<in> set cells.
          c_row c < grid_rows ?g outline \<and> c_col c < grid_cols ?g outline
          \<and> c_id c = c_row c * grid_cols ?g outline + c_col c + 1
          \<and> c_left c = min_lon outline + real (c_col c) * cell_size_lon ?g
          \<and> c_bottom c = min_lat outline + real (c_row c) * cell_size_lat ?g"
  proof
    fix c assume "c \<in> set cells"
    with sub have "c \<in> set (lattice ?g outline)" by blast
    then obtain row col where "row < grid_rows ?g outline" "col < grid_cols ?g outline"
        "c = lattice_cell ?g outline row col"
      unfolding lattice_mem by blast
    then show "c_row c < grid_rows ?g outline \<and> c_col c < grid_cols ?g outline
          \<and> c_id c = c_row c * grid_cols ?g outline + c_col c + 1
          \<and> c_left c = min_lon outline + real (c_col c) * cell_size_lon ?g
          \<and> c_bottom c = min_lat outline + real (c_row c) * cell_size_lat ?g"
      by (simp add: lattice_cell_fields)
  qed
  have f: "\<forall>f \<in> set fs.
          \<exists>row < grid_rows ?g outline. \<exists>col < grid_cols ?g outline.
            f_id f = row * grid_cols ?g outline + col + 1
            \<and> f_left f = min_lon outline + real col * cell_size_lon ?g
            \<and> f_bottom f = min_lat outline + real row * cell_size_lat ?g"
  proof
    fix f assume "f \<in> set fs"
    then have "f \<in> set (emitted C ls cells)"
      using assms(2) by (simp add: process_grid_eq)
    then obtain c where "c \<in> set cells" and fc: "f_id f = c_id c" "f_left f = c_left c"
        "f_bottom f = c_bottom c"
      using emitted_from_cell by blast
    with c show "\<exists>row < grid_rows ?g outline. \<exists>col < grid_cols ?g outline.
            f_id f = row * grid_cols ?g outline + col + 1
            \<and> f_left f = min_lon outline + real col * cell_size_lon ?g
            \<and> f_bottom f = min_lat outline + real row * cell_size_lat ?g"
      by (metis fc)
  qed
  show ?thesis
    using lattice_ids [of ?g outline] cells c f by (intro conjI)
qed

theorem cell_ids_row_major_witness:
  "create_grid lisboa_200 rgeo_intersects triangle_outline = Inr triangle_cells
   \<and> process_grid rgeo_contains triangle_cells triangle_listings = Inr triangle_features
   \<and> map c_id (lattice lisboa_200 triangle_outline) = [1, 2, 3, 4, 5, 6]
   \<and> map c_id triangle_cells = [1, 2, 3, 5, 6]
   \<and> map f_id triangle_features = [1, 5]
   \<and> list_all (\<lambda>c. c_id c = c_row c * 3 + c_col c + 1) triangle_cells
   \<and> list_all (\<lambda>f. \<exists>row < 2. \<exists>col < 3. f_id f = row * 3 + col + 1
         \<and> f_left f = min_lon triangle_outline + real col * cell_size_lon lisboa_200
         \<and> f_bottom f = min_lat triangle_outline + real row * cell_size_lat lisboa_200)
       triangle_features"
proof -
  note th = cell_ids_row_major [OF triangle_create_grid [unfolded lisboa_200_def]
      triangle_process_grid, folded lisboa_200_def, unfolded triangle_grid_size]
  have ids: "map c_id (lattice lisboa_200 triangle_outline) = [1, 2, 3, 4, 5, 6]"
    using th by (simp add: upt_rec)
  have c: "list_all (\<lambda>c. c_id c = c_row c * 3 + c_col c + 1) triangle_cells"
    using th by (simp add: list_all_iff)
  have f: "list_all (\<lambda>f. \<exists>row < 2. \<exists>col < 3. f_id f = row * 3 + col + 1
         \<and> f_left f = min_lon triangle_outline + real col * cell_size_lon lisboa_200
         \<and> f_bottom f = min_lat triangle_outline + real row * cell_size_lat lisboa_200)
       triangle_features"
    using th unfolding list_all_iff by blast
  show ?thesis
    using triangle_create_grid triangle_process_grid ids triangle_ids c f by (intro conjI)
qed

text \<open>
  Claim C5. A lattice cell is kept iff \<open>intersects?\<close> holds of the outline and the cell
  rectangle. Hence every kept cell and every emitted feature intersects the outline, and
  the id of a lattice position whose rectangle does not intersect the outline is the id
  of no feature, whatever the listings are.
\<close>

theorem cells_kept_iff_intersect:
  assumes "create_grid (initialize city cs) isect outline = Inr cells"
    and "process_grid C cells ls = Inr fs"
  shows "(\<forall>row < grid_rows (initialize city cs) outline.
          \<forall>col < grid_cols (initialize city cs) outline.
            lattice_cell (initialize city cs) outline row col \<in> set cells
            \<longleftrightarrow> isect outline (c_polygon (lattice_cell (initialize city cs) outline row col)))
    \<and> (\<forall>c \<in> set cells. c \<in> set (lattice (initialize city cs) outline)
                          \<and> isect outline (c_polygon c))
    \<and> (\<forall>f \<in> set fs. \<exists>c \<in> set cells. f_id f = c_id c \<and> f_coordinates f = c_polygon c
                          \<and> isect outline (f_coordinates f))
    \<and> (\<forall>row < grid_rows (initialize city cs) outline.
          \<forall>col < grid_cols (initialize city cs) outline.
            \<not> isect outline (c_polygon (lattice_cell (initialize city cs) outline row col))
            \<longrightarrow> c_id (lattice_cell (initialize city cs) outline row col) \<notin> f_id ` set fs)"
proof -
  let ?g = "initialize city cs"
  note cells = create_grid_Inr(3) [OF assms(1)]
  have fs: "fs = emitted C ls cells"
    using assms(2) by (simp add: process_grid_eq)
  have a: "\<forall>row < grid_rows ?g outline. \<forall>col < grid_cols ?g outline.
            lattice_cell ?g outline row col \<in> set cells
            \<longleftrightarrow> isect outline (c_polygon (lattice_cell ?g outline row col))"
    unfolding cells by (auto simp: lattice_mem)
  have b: "\<forall>c \<in> set cells. c \<in> set (lattice ?g outline) \<and> isect outline (c_polygon c)"
    unfolding cells by simp
  have c: "\<forall>f \<in> set fs. \<exists>c \<in> set cells. f_id f = c_id c \<and> f_coordinates f = c_polygon c
                          \<and> isect outline (f_coordinates f)"
  proof
    fix f assume "f \<in> set fs"
    then obtain c where "c \<in> set cells" "f_id f = c_id c" "f_coordinates f = c_polygon c"
      unfolding fs using emitted_from_cell by blast
    with b show "\<exists>c \<in> set cells. f_id f = c_id c \<and> f_coordinates f = c_polygon c
                          \<and> isect outline (f_coordinates f)"
      by auto
  qed
  have d: "\<forall>row < grid_rows ?g outline. \<forall>col < grid_cols ?g outline.
            \<not> isect outline (c_polygon (lattice_cell ?g outline row col))
            \<longrightarrow> c_id (lattice_cell ?g outline row col) \<notin> f_id ` set fs"
  proof (intro allI impI notI)
    fix row col
    assume row: "row < grid_rows ?g outline" and col: "col < grid_cols ?g outline"
      and out: "\<not> isect outline (c_polygon (lattice_cell ?g outline row col))"
      and "c_id (lattice_cell ?g outline row col) \<in> f_id ` set fs"
    then obtain f where "f \<in> set fs" "f_id f = c_id (lattice_cell ?g outline row col)"
      by auto
    with c obtain k where k: "k \<in> set cells" "c_id k = c_id (lattice_cell ?g outline row col)"
      by metis
    have "lattice_cell ?g outline row col \<in> set (lattice ?g outline)"
      using row col unfolding lattice_mem by blast
    with k b have "k = lattice_cell ?g outline row col"
      by (intro lattice_id_inj [of k ?g outline]) simp_all
    with k(1) b out show False by blast
  qed
  show ?thesis using a b c d by (intro conjI)
qed

theorem cells_kept_iff_intersect_witness:
  "create_grid lisboa_200 rgeo_intersects triangle_outline = Inr triangle_cells
   \<and> process_grid rgeo_contains triangle_cells triangle_listings = Inr triangle_features
   \<and> \<not> rgeo_intersects triangle_outline (c_polygon (lattice_cell lisboa_200 triangle_outline 1 0))
   \<and> rgeo_contains (c_polygon (lattice_cell lisboa_200 triangle_outline 1 0))
        (l_point (scaled_listing 150 (1 / 2) (3 / 2)))
   \<and> lattice_cell lisboa_200 triangle_outline 1 0 \<notin> set triangle_cells
   \<and> c_id (lattice_cell lisboa_200 triangle_outline 1 0) \<notin> f_id ` set triangle_features
   \<and> list_all (\<lambda>c. rgeo_intersects triangle_outline (c_polygon c)) triangle_cells
   \<and> list_all (\<lambda>f. rgeo_intersects triangle_outline (f_coordinates f)) triangle_features"
proof -
  note th = cells_kept_iff_intersect [OF triangle_create_grid [unfolded lisboa_200_def]
      triangle_process_grid, folded lisboa_200_def, unfolded triangle_grid_size]
  have out: "\<not> rgeo_intersects triangle_outline
                 (c_polygon (lattice_cell lisboa_200 triangle_outline 1 0))"
    by (rule triangle_kept(4))
  have inside: "rgeo_contains (c_polygon (lattice_cell lisboa_200 triangle_outline 1 0))
        (l_point (scaled_listing 150 (1 / 2) (3 / 2)))"
    by (simp add: scaled_listing_def triangle_cell_contains)
  have r: "(1::nat) < 2" and c: "(0::nat) < 3" by simp_all
  have notkept: "lattice_cell lisboa_200 triangle_outline 1 0 \<notin> set triangle_cells"
    using th out r c by blast
  have noid: "c_id (lattice_cell lisboa_200 triangle_outline 1 0) \<notin> f_id ` set triangle_features"
    using th out r c by blast
  have cs: "list_all (\<lambda>c. rgeo_intersects triangle_outline (c_polygon c)) triangle_cells"
    using th unfolding list_all_iff by blast
  have fs: "list_all (\<lambda>f. rgeo_intersects triangle_outline (f_coordinates f)) triangle_features"
    using th unfolding list_all_iff by blast
  show ?thesis
    using triangle_create_grid triangle_process_grid out inside notkept noid cs fs
    by (intro conjI)
qed

section \<open>Properties of the binning of points\<close>

lemma bbox_ordered:
  assumes "outline \<noteq> []"
  shows "min_lon outline \<le> max_lon outline" and "min_lat outline \<le> max_lat outline"
  using assms by (simp_all add: min_lon_def max_lon_def min_lat_def max_lat_def)

lemma lattice_cell_size_pos:
  assumes "c \<in> set (lattice g outline)" and "outline \<noteq> []"
  shows "0 < cell_size_lon g" and "0 < cell_size_lat g"
proof -
  from assms(1) have cols: "0 < grid_cols g outline" and rows: "0 < grid_rows g outline"
    unfolding lattice_mem by auto
  from cols have "0 < (max_lon outline - min_lon outline) / cell_size_lon g"
    by (simp add: grid_cols_def)
  with bbox_ordered(1) [OF assms(2)] show "0 < cell_size_lon g"
    by (simp add: zero_less_divide_iff)
  from rows have "0 < (max_lat outline - min_lat outline) / cell_size_lat g"
    by (simp add: grid_rows_def)
  with bbox_ordered(2) [OF assms(2)] show "0 < cell_size_lat g"
    by (simp add: zero_less_divide_iff)
qed

lemma lattice_cell_contains:
  assumes "0 < cell_size_lon g" and "0 < cell_size_lat g"
  shows "rgeo_contains (c_polygon (lattice_cell g outline row col)) p \<longleftrightarrow>
           c_left (lattice_cell g outline row col) < fst p
         \<and> fst p < c_right (lattice_cell g outline row col)
         \<and> c_bottom (lattice_cell g outline row col) < snd p
         \<and> snd p < c_top (lattice_cell g outline row col)"
  unfolding lattice_cell_def by (rule rgeo_contains_make_cell [OF assms])

lemma emitted_count_sum:
  assumes "\<forall>l \<in> set ls. 0 < l_price l"
  shows "sum_list (map f_listings_count (emitted C ls cells))
           = real (\<Sum>c\<leftarrow>cells. length (binned C ls c))"
proof -
  have "sum_list (map f_listings_count (emitted C ls cells))
      = (\<Sum>c\<leftarrow>filter (\<lambda>c. binned C ls c \<noteq> []) cells. real (length (binned C ls c)))"
    by (simp add: emitted_pos [OF assms] feature_of_def prices_in_cell_binned comp_def)
  also have "\<dots> = (\<Sum>c\<leftarrow>cells. real (length (binned C ls c)))"
    by (induction cells) simp_all
  also have "\<dots> = real (\<Sum>c\<leftarrow>cells. length (binned C ls c))"
    by (induction cells) simp_all
  finally show ?thesis .
qed

lemma fl_values:
  "fl (- 51 / 100) = - (2296835809958953 / 2 ^ 52)"
  "fl (33 / 100) = 5944751508129055 / 2 ^ 54"
  "fl (513 / 10) = 3609916576314163 / 2 ^ 46"
  "fl (517 / 10) = 3638064073985229 / 2 ^ 46"
  "fl (513009 / 10000) = 3609979908183923 / 2 ^ 46"
  "fl (200 / 111000) = 8309344177346645 / 2 ^ 62"
  "fl (111000 * math_cos_reference) = 2976507691774011 / 2 ^ 35"
  "fl (200 / (2976507691774011 / 2 ^ 35)) = 5323565111773255 / 2 ^ 61"
  by (simp_all add: math_cos_reference_def fl_eval)

lemma make_cell_float_unfold:
  "make_cell_float x0 y0 sx sy row col n =
     \<lparr> c_id = n,
       c_polygon =
         [(fl (x0 + fl (real col * sx)), fl (fl (y0 + fl (real row * sy)) + sy)),
          (fl (fl (x0 + fl (real col * sx)) + sx), fl (fl (y0 + fl (real row * sy)) + sy)),
          (fl (fl (x0 + fl (real col * sx)) + sx), fl (y0 + fl (real row * sy))),
          (fl (x0 + fl (real col * sx)), fl (y0 + fl (real row * sy))),
          (fl (x0 + fl (real col * sx)), fl (fl (y0 + fl (real row * sy)) + sy))],
       c_left = fl (x0 + fl (real col * sx)),
       c_top = fl (fl (y0 + fl (real row * sy)) + sy),
       c_right = fl (fl (x0 + fl (real col * sx)) + sx),
       c_bottom = fl (y0 + fl (real row * sy)),
       c_row = row, c_col = col \<rparr>"
  by (simp add: make_cell_float_def Let_def)

lemma overlap_cell_168_value:
  "overlap_cell_168 =
     \<lparr> c_id = 168,
       c_polygon =
         [(- (2241754383069143 / 2 ^ 54), 3610043366844213 / 2 ^ 46),
          (- (4400328061266829 / 2 ^ 55), 3610043366844213 / 2 ^ 46),
          (- (4400328061266829 / 2 ^ 55), 3609916576314163 / 2 ^ 46),
          (- (2241754383069143 / 2 ^ 54), 3609916576314163 / 2 ^ 46),
          (- (2241754383069143 / 2 ^ 54), 3610043366844213 / 2 ^ 46)],
       c_left = - (2241754383069143 / 2 ^ 54), c_top = 3610043366844213 / 2 ^ 46,
       c_right = - (4400328061266829 / 2 ^ 55), c_bottom = 3609916576314163 / 2 ^ 46,
       c_row = 0, c_col = 167 \<rparr>"
  unfolding overlap_cell_168_def fl_values make_cell_float_unfold
  by (simp add: fl_eval)

lemma overlap_cell_169_value:
  "overlap_cell_169 =
     \<lparr> c_id = 169,
       c_polygon =
         [(- (2200164030633415 / 2 ^ 54), 3610043366844213 / 2 ^ 46),
          (- (4317147356395373 / 2 ^ 55), 3610043366844213 / 2 ^ 46),
          (- (4317147356395373 / 2 ^ 55), 3609916576314163 / 2 ^ 46),
          (- (2200164030633415 / 2 ^ 54), 3609916576314163 / 2 ^ 46),
          (- (2200164030633415 / 2 ^ 54), 3610043366844213 / 2 ^ 46)],
       c_left = - (2200164030633415 / 2 ^ 54), c_top = 3610043366844213 / 2 ^ 46,
       c_right = - (4317147356395373 / 2 ^ 55), c_bottom = 3609916576314163 / 2 ^ 46,
       c_row = 0, c_col = 168 \<rparr>"
  unfolding overlap_cell_169_def fl_values make_cell_float_unfold
  by (simp add: fl_eval)

lemma grid_col_loop_float:
  "fold (grid_col_step_float isect outl x0 y0 sx sy row) [0..<n] (cells, k)
     = (cells @ filter (\<lambda>c. isect outl (c_polygon c))
                  (map (\<lambda>col. make_cell_float x0 y0 sx sy row col (k + col)) [0..<n]),
        k + n)"
  by (induction n) (simp_all add: grid_col_step_float_def Let_def)

lemma grid_row_loop_float:
  "fold (grid_row_step_float isect outl x0 y0 sx sy cols) [0..<m] (cells, k)
     = (cells @ filter (\<lambda>c. isect outl (c_polygon c))
                  (concat (map (\<lambda>row. map (\<lambda>col. make_cell_float x0 y0 sx sy row col
                                                      (k + row * cols + col))
                                        [0..<cols]) [0..<m])),
        k + m * cols)"
  by (induction m) (simp_all add: grid_row_step_float_def grid_col_loop_float add.assoc)

lemma box_bounds:
  "rb_min (map fst box_outline) = Some (fl (- 51 / 100))"
  "rb_min (map snd box_outline) = Some (fl (513 / 10))"
  "rb_max (map fst box_outline) = Some (fl (33 / 100))"
  "rb_max (map snd box_outline) = Some (fl (517 / 10))"
  unfolding box_outline_def fl_values by simp_all

lemma box_grid_size:
  "\<lceil>fl (fl (fl (33 / 100) - fl (- 51 / 100)) / fl (200 / fl (111000 * math_cos_reference)))\<rceil> = 364"
  "\<lceil>fl (fl (fl (517 / 10) - fl (513 / 10)) / fl (200 / 111000))\<rceil> = 223"
  unfolding fl_values by (simp_all add: fl_eval)

lemma box_cell_sizes:
  "fl (200 / fl (111000 * math_cos_reference)) \<noteq> 0" "fl (200 / 111000) \<noteq> 0"
  unfolding fl_values by simp_all

lemma box_grid:
  "create_grid_float (initialize_float ''london'' 200) rgeo_intersects box_outline
     = Inr (filter (\<lambda>c. rgeo_intersects box_outline (c_polygon c))
             (concat (map (\<lambda>row. map (\<lambda>col.
                  make_cell_float (fl (- 51 / 100)) (fl (513 / 10))
                    (fl (200 / fl (111000 * math_cos_reference))) (fl (200 / 111000))
                    row col (1 + row * 364 + col)) [0..<364]) [0..<223])))"
  by (simp add: create_grid_float_def initialize_float_def box_outline_def
      math_cos_reference_def fl_eval grid_row_loop_float Let_def del: upt_rec_numeral)

lemma box_cells_eq:
  "box_cells = filter (\<lambda>c. rgeo_intersects box_outline (c_polygon c))
             (concat (map (\<lambda>row. map (\<lambda>col.
                  make_cell_float (fl (- 51 / 100)) (fl (513 / 10))
                    (fl (200 / fl (111000 * math_cos_reference))) (fl (200 / 111000))
                    row col (1 + row * 364 + col)) [0..<364]) [0..<223]))"
  unfolding box_cells_def box_grid by simp

lemma box_outline_value:
  "box_outline =
     [(- (2296835809958953 / 2 ^ 52), 3609916576314163 / 2 ^ 46),
      (5944751508129055 / 2 ^ 54, 3609916576314163 / 2 ^ 46),
      (5944751508129055 / 2 ^ 54, 3638064073985229 / 2 ^ 46),
      (- (2296835809958953 / 2 ^ 52), 3638064073985229 / 2 ^ 46),
      (- (2296835809958953 / 2 ^ 52), 3609916576314163 / 2 ^ 46)]"
  unfolding box_outline_def fl_values ..

lemma overlap_cells_intersect:
  "rgeo_intersects box_outline (c_polygon overlap_cell_168)"
  "rgeo_intersects box_outline (c_polygon overlap_cell_169)"
  unfolding box_outline_value overlap_cell_168_value overlap_cell_169_value
  by (simp_all add: intersects_eval)

lemma lattice_position_mem:
  "row < m \<Longrightarrow> col < n \<Longrightarrow>
     f row col \<in> set (concat (map (\<lambda>row. map (f row) [0..<n]) [0..<m]))"
  by (force simp: image_iff)

lemma overlap_cells_kept:
  "overlap_cell_168 \<in> set box_cells" "overlap_cell_169 \<in> set box_cells"
proof -
  let ?mk = "\<lambda>row col. make_cell_float (fl (- 51 / 100)) (fl (513 / 10))
                    (fl (200 / fl (111000 * math_cos_reference))) (fl (200 / 111000))
                    row col (1 + row * 364 + col)"
  have a: "overlap_cell_168 = ?mk 0 167" and b: "overlap_cell_169 = ?mk 0 168"
    by (simp_all add: overlap_cell_168_def overlap_cell_169_def)
  have lt: "(0::nat) < 223" "(167::nat) < 364" "(168::nat) < 364"
    by simp_all
  note m1 = lattice_position_mem [of 0 223 167 364 ?mk, OF lt(1) lt(2)]
  note m2 = lattice_position_mem [of 0 223 168 364 ?mk, OF lt(1) lt(3)]
  have k1: "rgeo_intersects box_outline (c_polygon (?mk 0 167))"
    using overlap_cells_intersect(1) unfolding a .
  have k2: "rgeo_intersects box_outline (c_polygon (?mk 0 168))"
    using overlap_cells_intersect(2) unfolding b .
  show "overlap_cell_168 \<in> set box_cells"
    unfolding box_cells_eq a using m1 k1 by (simp only: set_filter mem_Collect_eq simp_thms)
  show "overlap_cell_169 \<in> set box_cells"
    unfolding box_cells_eq b using m2 k2 by (simp only: set_filter mem_Collect_eq simp_thms)
qed

lemma overlap_listing_position:
  "l_lon overlap_listing = - (8800656122533659 / 2 ^ 56)"
  "l_lat overlap_listing = 3609979908183923 / 2 ^ 46"
  "l_point overlap_listing = (- (8800656122533659 / 2 ^ 56), 3609979908183923 / 2 ^ 46)"
  "l_price overlap_listing = 100"
  unfolding overlap_listing_def listing_at_def fl_values by simp_all

lemma overlap_binned:
  "binned rgeo_contains [overlap_listing] overlap_cell_168 = [overlap_listing]"
  "binned rgeo_contains [overlap_listing] overlap_cell_169 = [overlap_listing]"
proof -
  have "rgeo_contains (c_polygon overlap_cell_168) (l_point overlap_listing)"
    unfolding overlap_cell_168_value overlap_listing_position
    by (simp, subst rgeo_contains_rectangle) simp_all
  then show "binned rgeo_contains [overlap_listing] overlap_cell_168 = [overlap_listing]"
    by (simp add: binned_def)
  have "rgeo_contains (c_polygon overlap_cell_169) (l_point overlap_listing)"
    unfolding overlap_cell_169_value overlap_listing_position
    by (simp, subst rgeo_contains_rectangle) simp_all
  then show "binned rgeo_contains [overlap_listing] overlap_cell_169 = [overlap_listing]"
    by (simp add: binned_def)
qed

lemma box_process_grid:
  "process_grid rgeo_contains box_cells [overlap_listing] = Inr box_features"
  by (simp add: box_features_def process_grid_eq)

lemma overlap_features:
  "feature_of overlap_cell_168 [100] \<in> set box_features"
  "feature_of overlap_cell_169 [100] \<in> set box_features"
proof -
  have pos: "\<forall>l \<in> set [overlap_listing]. 0 < l_price l"
    by (simp add: overlap_listing_position)
  have fs: "box_features
      = map (\<lambda>c. feature_of c (prices_in_cell rgeo_contains c [overlap_listing]))
          (filter (\<lambda>c. binned rgeo_contains [overlap_listing] c \<noteq> []) box_cells)"
    by (simp add: box_features_def process_grid_eq emitted_pos [OF pos])
  have p: "prices_in_cell rgeo_contains overlap_cell_168 [overlap_listing] = [100]"
    "prices_in_cell rgeo_contains overlap_cell_169 [overlap_listing] = [100]"
    by (simp_all add: prices_in_cell_binned overlap_binned overlap_listing_position)
  have "overlap_cell_168 \<in> set (filter (\<lambda>c. binned rgeo_contains [overlap_listing] c \<noteq> []) box_cells)"
    and "overlap_cell_169 \<in> set (filter (\<lambda>c. binned rgeo_contains [overlap_listing] c \<noteq> []) box_cells)"
    using overlap_cells_kept by (simp_all add: overlap_binned)
  then show "feature_of overlap_cell_168 [100] \<in> set box_features"
    "feature_of overlap_cell_169 [100] \<in> set box_features"
    unfolding fs using p by (metis (no_types, lifting) image_eqI set_map)+
qed

text \<open>
  Claim C1, as stated, fails. A point on the left edge of a cell is not counted in that
  cell: the listing on the edge shared by the kept cells of columns 0 and 1 (row 0)
  satisfies \<open>left \<le> longitude < right\<close> and \<open>bottom \<le> latitude < top\<close> for the cell of
  column 1, and no feature is emitted. And a point can be counted in two cells: in
  doubles, the right bound of the kept cell 168 of the run over the box is greater than
  the left bound of the kept cell 169, the listing lies strictly inside both, and both
  cells are emitted with \<open>listings_count\<close> 1.
\<close>

theorem edge_point_counted_counterexample:
  "create_grid lisboa_200 rgeo_intersects triangle_outline = Inr triangle_cells
   \<and> lattice_cell lisboa_200 triangle_outline 0 1 \<in> set triangle_cells
   \<and> c_left (lattice_cell lisboa_200 triangle_outline 0 1) \<le> l_lon (scaled_listing 80 1 (1 / 2))
   \<and> l_lon (scaled_listing 80 1 (1 / 2)) < c_right (lattice_cell lisboa_200 triangle_outline 0 1)
   \<and> c_bottom (lattice_cell lisboa_200 triangle_outline 0 1) \<le> l_lat (scaled_listing 80 1 (1 / 2))
   \<and> l_lat (scaled_listing 80 1 (1 / 2)) < c_top (lattice_cell lisboa_200 triangle_outline 0 1)
   \<and> process_grid rgeo_contains triangle_cells [scaled_listing 80 1 (1 / 2)] = Inr []
   \<and> overlap_cell_168 \<in> set box_cells \<and> overlap_cell_169 \<in> set box_cells
   \<and> c_id overlap_cell_168 = 168 \<and> c_id overlap_cell_169 = 169
   \<and> c_left overlap_cell_169 < l_lon overlap_listing
   \<and> l_lon overlap_listing < c_right overlap_cell_168
   \<and> binned rgeo_contains [overlap_listing] overlap_cell_168 = [overlap_listing]
   \<and> binned rgeo_contains [overlap_listing] overlap_cell_169 = [overlap_listing]
   \<and> process_grid rgeo_contains box_cells [overlap_listing] = Inr box_features
   \<and> feature_of overlap_cell_168 [100] \<in> set box_features
   \<and> feature_of overlap_cell_169 [100] \<in> set box_features
   \<and> f_listings_count (feature_of overlap_cell_168 [100]) = 1
   \<and> f_listings_count (feature_of overlap_cell_169 [100]) = 1"
proof -
  have mem: "lattice_cell lisboa_200 triangle_outline 0 1 \<in> set triangle_cells"
    by (simp add: triangle_cells_def)
  have range: "c_left (lattice_cell lisboa_200 triangle_outline 0 1) \<le> l_lon (scaled_listing 80 1 (1 / 2))"
    "l_lon (scaled_listing 80 1 (1 / 2)) < c_right (lattice_cell lisboa_200 triangle_outline 0 1)"
    "c_bottom (lattice_cell lisboa_200 triangle_outline 0 1) \<le> l_lat (scaled_listing 80 1 (1 / 2))"
    "l_lat (scaled_listing 80 1 (1 / 2)) < c_top (lattice_cell lisboa_200 triangle_outline 0 1)"
    using lisboa_200_sizes
    by (simp_all add: lattice_cell_fields triangle_outline_bounds scaled_listing_def)
  have none: "process_grid rgeo_contains triangle_cells [scaled_listing 80 1 (1 / 2)] = Inr []"
    by (simp add: process_grid_eq triangle_cells_def Let_def prices_in_cell_def
        scaled_listing_def triangle_cell_contains)
  have ids: "c_id overlap_cell_168 = 168" "c_id overlap_cell_169 = 169"
    unfolding overlap_cell_168_value overlap_cell_169_value by simp_all
  have over: "c_left overlap_cell_169 < l_lon overlap_listing"
    "l_lon overlap_listing < c_right overlap_cell_168"
    unfolding overlap_cell_168_value overlap_cell_169_value overlap_listing_position
    by simp_all
  have counts: "f_listings_count (feature_of overlap_cell_168 [100]) = 1"
    "f_listings_count (feature_of overlap_cell_169 [100]) = 1"
    by (simp_all add: feature_of_def)
  show ?thesis
    using triangle_create_grid mem range none overlap_cells_kept ids over overlap_binned
      box_process_grid overlap_features counts
    by (intro conjI)
qed

text \<open>
  Claim C1, amended. For every kept cell and every loaded data point (positive price,
  point = (longitude, latitude)), the point is binned into the cell exactly when
  \<open>left < longitude < right\<close> and \<open>bottom < latitude < top\<close> for the bounds of that cell:
  the open rectangle, so a point on an edge of a cell is not counted in that cell. The
  sum of \<open>listings_count\<close> over all output features is the sum, over the kept cells, of
  the number of loaded points binned into the cell.
\<close>

theorem points_binned_by_open_rectangle:
  assumes "create_grid (initialize city cs) isect outline = Inr cells"
    and "\<forall>l \<in> set ls. 0 < l_price l \<and> l_point l = (l_lon l, l_lat l)"
    and "process_grid rgeo_contains cells ls = Inr fs"
  shows "(\<forall>c \<in> set cells.
           binned rgeo_contains ls c
             = filter (\<lambda>l. c_left c < l_lon l \<and> l_lon l < c_right c
                           \<and> c_bottom c < l_lat l \<and> l_lat l < c_top c) ls)
    \<and> sum_list (map f_listings_count fs)
         = real (\<Sum>c\<leftarrow>cells. length (binned rgeo_contains ls c))"
proof -
  let ?g = "initialize city cs"
  note ne = create_grid_Inr(1) [OF assms(1)]
  note cells = create_grid_Inr(3) [OF assms(1)]
  have sub: "set cells \<subseteq> set (lattice ?g outline)"
    unfolding cells by auto
  have pos: "\<forall>l \<in> set ls. 0 < l_price l"
    using assms(2) by blast
  have fs: "fs = emitted rgeo_contains ls cells"
    using assms(3) by (simp add: process_grid_eq)
  have a: "\<forall>c \<in> set cells.
           binned rgeo_contains ls c
             = filter (\<lambda>l. c_left c < l_lon l \<and> l_lon l < c_right c
                           \<and> c_bottom c < l_lat l \<and> l_lat l < c_top c) ls"
  proof
    fix c assume "c \<in> set cells"
    with sub have c: "c \<in> set (lattice ?g outline)" by blast
    note sz = lattice_cell_size_pos [OF c ne]
    from c obtain row col where rc: "c = lattice_cell ?g outline row col"
      unfolding lattice_mem by blast
    show "binned rgeo_contains ls c
             = filter (\<lambda>l. c_left c < l_lon l \<and> l_lon l < c_right c
                           \<and> c_bottom c < l_lat l \<and> l_lat l < c_top c) ls"
      unfolding binned_def rc using assms(2)
      by (intro filter_cong refl) (simp add: lattice_cell_contains [OF sz])
  qed
  have b: "sum_list (map f_listings_count fs)
      = real (\<Sum>c\<leftarrow>cells. length (binned rgeo_contains ls c))"
    unfolding fs by (rule emitted_count_sum [OF pos])
  show ?thesis using a b by (intro conjI)
qed

lemma triangle_listings_valid:
  "\<forall>l \<in> set triangle_listings. 0 < l_price l \<and> l_point l = (l_lon l, l_lat l)"
  by (simp add: triangle_listings_def scaled_listing_def scale_point_def)

theorem points_binned_by_open_rectangle_witness:
  "create_grid lisboa_200 rgeo_intersects triangle_outline = Inr triangle_cells
   \<and> list_all (\<lambda>l. 0 < l_price l \<and> l_point l = (l_lon l, l_lat l)) triangle_listings
   \<and> process_grid rgeo_contains triangle_cells triangle_listings = Inr triangle_features
   \<and> binned rgeo_contains triangle_listings (lattice_cell lisboa_200 triangle_outline 0 0)
        = [scaled_listing 50 (1 / 2) (1 / 2)]
   \<and> binned rgeo_contains triangle_listings (lattice_cell lisboa_200 triangle_outline 0 1) = []
   \<and> sum_list (map f_listings_count triangle_features) = 2
   \<and> (\<Sum>c\<leftarrow>triangle_cells. length (binned rgeo_contains triangle_listings c)) = 2"
proof -
  note th = points_binned_by_open_rectangle [OF triangle_create_grid [unfolded lisboa_200_def]
      triangle_listings_valid triangle_process_grid, folded lisboa_200_def]
  have valid: "list_all (\<lambda>l. 0 < l_price l \<and> l_point l = (l_lon l, l_lat l)) triangle_listings"
    using triangle_listings_valid by (simp add: list_all_iff)
  have b0: "binned rgeo_contains triangle_listings (lattice_cell lisboa_200 triangle_outline 0 0)
        = [scaled_listing 50 (1 / 2) (1 / 2)]"
    by (simp add: binned_def triangle_listings_def scaled_listing_def triangle_cell_contains)
  have b1: "binned rgeo_contains triangle_listings (lattice_cell lisboa_200 triangle_outline 0 1) = []"
    by (simp add: binned_def triangle_listings_def scaled_listing_def triangle_cell_contains)
  have total: "sum_list (map f_listings_count triangle_features) = 2"
    by (simp add: triangle_features_def feature_of_def)
  have "real (\<Sum>c\<leftarrow>triangle_cells. length (binned rgeo_contains triangle_listings c)) = 2"
    unfolding th [THEN conjunct2, symmetric] by (rule total)
  then have n: "(\<Sum>c\<leftarrow>triangle_cells. length (binned rgeo_contains triangle_listings c)) = 2"
    by linarith
  show ?thesis
    using triangle_create_grid valid triangle_process_grid b0 b1 total n by (intro conjI)
qed

end
